theory Spec2Isabelle
  imports Complex_Main
begin

section \<open>JavaScript numbers\<close>

text \<open>
  The planner computes with JavaScript numbers. They are modelled as the reals extended by
  the three special values the code can produce and test for: \<open>Infinity\<close>, \<open>-Infinity\<close>
  and \<open>NaN\<close>. The accumulators of the planner start from \<open>Infinity\<close> and \<open>-Infinity\<close>, so the
  special values are part of the algorithm. Arithmetic on finite values is exact: rounding
  (of doubles, and of the stores into \<open>Float32Array\<close>s), overflow and the sign of zero are
  not represented. Reading an array out of range gives \<open>undefined\<close>, which every
  arithmetic operation and comparison of the code treats as \<open>NaN\<close>.
\<close>

datatype num = Fin real | PInf | MInf | NaN

instantiation num :: "{plus, minus, uminus, times, inverse, abs, ord}"
begin

fun uminus_num :: "num \<Rightarrow> num" where
  "uminus_num (Fin a) = Fin (- a)"
| "uminus_num PInf = MInf"
| "uminus_num MInf = PInf"
| "uminus_num NaN = NaN"

fun plus_num :: "num \<Rightarrow> num \<Rightarrow> num" where
  "plus_num (Fin a) (Fin b) = Fin (a + b)"
| "plus_num NaN _ = NaN"
| "plus_num _ NaN = NaN"
| "plus_num PInf MInf = NaN"
| "plus_num MInf PInf = NaN"
| "plus_num PInf _ = PInf"
| "plus_num _ PInf = PInf"
| "plus_num MInf _ = MInf"
| "plus_num _ MInf = MInf"

definition minus_num :: "num \<Rightarrow> num \<Rightarrow> num" where
  "minus_num x y = x + (- y)"

fun times_num :: "num \<Rightarrow> num \<Rightarrow> num" where
  "times_num (Fin a) (Fin b) = Fin (a * b)"
| "times_num NaN _ = NaN"
| "times_num _ NaN = NaN"
| "times_num (Fin a) PInf = (if a = 0 then NaN else if 0 < a then PInf else MInf)"
| "times_num (Fin a) MInf = (if a = 0 then NaN else if 0 < a then MInf else PInf)"
| "times_num PInf (Fin a) = (if a = 0 then NaN else if 0 < a then PInf else MInf)"
| "times_num MInf (Fin a) = (if a = 0 then NaN else if 0 < a then MInf else PInf)"
| "times_num PInf PInf = PInf"
| "times_num MInf MInf = PInf"
| "times_num PInf MInf = MInf"
| "times_num MInf PInf = MInf"

fun divide_num :: "num \<Rightarrow> num \<Rightarrow> num" where
  "divide_num (Fin a) (Fin b) =
     (if b = 0 then (if a = 0 then NaN else if 0 < a then PInf else MInf) else Fin (a / b))"
| "divide_num NaN _ = NaN"
| "divide_num _ NaN = NaN"
| "divide_num (Fin a) PInf = Fin 0"
| "divide_num (Fin a) MInf = Fin 0"
| "divide_num PInf (Fin b) = (if 0 \<le> b then PInf else MInf)"
| "divide_num MInf (Fin b) = (if 0 \<le> b then MInf else PInf)"
| "divide_num PInf _ = NaN"
| "divide_num MInf _ = NaN"

definition inverse_num :: "num \<Rightarrow> num" where
  "inverse_num x = divide (Fin 1) x"

fun abs_num :: "num \<Rightarrow> num" where
  "abs_num (Fin a) = Fin \<bar>a\<bar>"
| "abs_num PInf = PInf"
| "abs_num MInf = PInf"
| "abs_num NaN = NaN"

fun less_num :: "num \<Rightarrow> num \<Rightarrow> bool" where
  "less_num (Fin a) (Fin b) = (a < b)"
| "less_num NaN _ = False"
| "less_num _ NaN = False"
| "less_num _ MInf = False"
| "less_num PInf _ = False"
| "less_num MInf _ = True"
| "less_num _ PInf = True"

fun less_eq_num :: "num \<Rightarrow> num \<Rightarrow> bool" where
  "less_eq_num (Fin a) (Fin b) = (a \<le> b)"
| "less_eq_num NaN _ = False"
| "less_eq_num _ NaN = False"
| "less_eq_num MInf _ = True"
| "less_eq_num _ PInf = True"
| "less_eq_num _ MInf = False"
| "less_eq_num PInf _ = False"

instance ..

end

text \<open>\<open>Math.min\<close>, \<open>Math.max\<close>, \<open>Math.sqrt\<close>, \<open>Math.abs\<close> and \<open>Math.cos\<close>.\<close>

definition Math_min :: "num \<Rightarrow> num \<Rightarrow> num" where
  "Math_min x y = (if x = NaN \<or> y = NaN then NaN else if x < y then x else y)"

definition Math_max :: "num \<Rightarrow> num \<Rightarrow> num" where
  "Math_max x y = (if x = NaN \<or> y = NaN then NaN else if x < y then y else x)"

fun Math_sqrt :: "num \<Rightarrow> num" where
  "Math_sqrt (Fin a) = (if a < 0 then NaN else Fin (sqrt a))"
| "Math_sqrt PInf = PInf"
| "Math_sqrt MInf = NaN"
| "Math_sqrt NaN = NaN"

definition Math_abs :: "num \<Rightarrow> num" where
  "Math_abs x = \<bar>x\<bar>"

fun Math_cos :: "num \<Rightarrow> num" where
  "Math_cos (Fin a) = Fin (cos a)"
| "Math_cos _ = NaN"

text \<open>A number is finite when it is none of the special values.\<close>

definition finite_num :: "num \<Rightarrow> bool" where
  "finite_num x = (case x of Fin a \<Rightarrow> True | _ \<Rightarrow> False)"

text \<open>An array read \<open>xs[i]\<close> used as a number: \<open>undefined\<close> out of range.\<close>

definition elem :: "num list \<Rightarrow> nat \<Rightarrow> num" where
  "elem xs i = (if i < length xs then xs ! i else NaN)"

section \<open>Data model (types.ts)\<close>

record JointState =
  angle :: num
  velocity :: num
  acceleration :: num
  torque :: num

record DynamicsParams =
  masses :: "num list"
  lengths :: "num list"
  com :: "num list"

section \<open>Dynamics model (services/dynamics.ts)\<close>

definition ROBOT_PARAMS :: DynamicsParams where
  "ROBOT_PARAMS =
     \<lparr>masses = [Fin 5, Fin 8, Fin 6, Fin 2, Fin 1, Fin 0.5],
      lengths = [Fin 0.29, Fin 0.27, Fin 0.30, Fin 0.10, Fin 0.05, Fin 0.05],
      com = [Fin 0.15, Fin 0.13, Fin 0.15, Fin 0.05, Fin 0.02, Fin 0.01]\<rparr>"

definition MAX_TORQUES :: "num list" where
  "MAX_TORQUES = [Fin 80, Fin 80, Fin 40, Fin 20, Fin 10, Fin 10]"

definition G :: num where
  "G = Fin 9.81"

definition calculateGravityTorques :: "JointState list \<Rightarrow> DynamicsParams \<Rightarrow> num list" where
  "calculateGravityTorques jnts params =
     (let torques = replicate 6 (Fin 0);
          q = map angle jnts;
          m2_eff = elem (masses params) 1 + elem (masses params) 2 + elem (masses params) 3;
          torques = torques[1 := torques ! 1 + m2_eff * G * elem (com params) 1 * Math_cos (elem q 1)];
          m3_eff = elem (masses params) 2 + elem (masses params) 3;
          torques = torques[2 := torques ! 2
                       + m3_eff * G * elem (com params) 2 * Math_cos (elem q 1 + elem q 2)];
          torques = torques[4 := torques ! 4
                       + elem (masses params) 4 * G * elem (com params) 4
                         * Math_cos (elem q 1 + elem q 2 + elem q 4)]
      in torques)"

text \<open>The bodies of the two \<open>for\<close> statements of \<open>calculateInverseDynamics\<close>.\<close>

definition inertia_step :: "DynamicsParams \<Rightarrow> num list \<Rightarrow> num list \<Rightarrow> nat \<Rightarrow> num list" where
  "inertia_step params qdd torques i =
     (let inertia = elem (masses params) i * (elem (lengths params) i * elem (lengths params) i);
          coupling = Fin (real (5 - i)) * Fin 0.5
      in torques[i := torques ! i + (inertia + coupling) * elem qdd i])"

definition centrifugal_step :: "num list \<Rightarrow> num list \<Rightarrow> nat \<Rightarrow> num list" where
  "centrifugal_step qd torques i =
     (let centrifugal = Fin 0.1 * elem qd i * Math_abs (elem qd i)
      in torques[i := torques ! i + centrifugal])"

definition calculateInverseDynamics :: "JointState list \<Rightarrow> DynamicsParams \<Rightarrow> num list" where
  "calculateInverseDynamics jnts params =
     (let torques = calculateGravityTorques jnts params;
          q = map angle jnts;
          qd = map velocity jnts;
          qdd = map acceleration jnts;
          torques = foldl (inertia_step params qdd) torques [0..<6];
          torques = foldl (centrifugal_step qd) torques [0..<6]
      in torques[0 := (foldl (\<lambda>a b. a + b) (Fin 0) (masses params) * Fin 0.1) * elem qdd 0])"

section \<open>Trajectories\<close>

text \<open>
  A frame is the array of joint states of one sample together with the \<open>time\<close> property
  the planner attaches to that array. The planner returns the frames and the duration.
\<close>

record Frame =
  joints :: "JointState list"
  time :: num

record Trajectory =
  points :: "Frame list"
  duration :: num

text \<open>
  The exceptions. The code at hand can raise one only: the \<open>TypeError\<close> of reading a
  property of \<open>undefined\<close> (an element of an array of objects, read out of range). A
  call of \<open>calculateJointFriction\<close>, whose code is not at hand, may throw as well;
  \<open>FrictionError\<close> stands for whatever it throws.
\<close>

datatype error = TypeError | FrictionError

section \<open>Planner (services/toppra.ts)\<close>

text \<open>
  \<open>calculateJointFriction\<close> is imported from \<open>services/frictionModel\<close>, which is not part
  of the sources at hand. It is a parameter \<open>fr\<close> of every definition that calls it: a
  function from the joint index and the joint velocity to a torque. A friction model whose
  calls can throw is the subject of the section after this one.
\<close>

definition N_GRID :: nat where
  "N_GRID = 200"

definition PLAYBACK_SPEED_FACTOR :: num where
  "PLAYBACK_SPEED_FACTOR = Fin 1"

text \<open>
  \<open>generateLinearFallback\<close>. The read \<open>end[idx].angle\<close> raises when \<open>idx\<close> is beyond the
  end array, that is, in the first frame already, when \<open>end\<close> is shorter than \<open>start\<close>.
\<close>

definition fallback_frame :: "JointState list \<Rightarrow> JointState list \<Rightarrow> nat \<Rightarrow> Frame" where
  "fallback_frame startJoints endJoints i =
     (let t = Fin (real i) / Fin 60;
          frame = map (\<lambda>(idx, j).
                    \<lparr>angle = angle j + (angle (endJoints ! idx) - angle j) * t,
                     velocity = Fin 0, acceleration = Fin 0, torque = Fin 0\<rparr>)
                  (enumerate 0 startJoints)
      in \<lparr>joints = frame, time = t * Fin 3\<rparr>)"

definition generateLinearFallback :: "JointState list \<Rightarrow> JointState list \<Rightarrow> error + Trajectory" where
  "generateLinearFallback startJoints endJoints =
     (if length endJoints < length startJoints then Inl TypeError
      else Inr \<lparr>points = map (fallback_frame startJoints endJoints) [0..<61],
                duration = Fin 3\<rparr>)"

subsection \<open>1. Dynamics coefficients over the grid\<close>

definition zero_state :: "num \<Rightarrow> JointState" where
  "zero_state a = \<lparr>angle = a, velocity = Fin 0, acceleration = Fin 0, torque = Fin 0\<rparr>"

definition q_curr :: "num list \<Rightarrow> num list \<Rightarrow> nat \<Rightarrow> num list" where
  "q_curr startq deltaq k =
     (let s = Fin (real k) / Fin (real N_GRID)
      in map (\<lambda>(i, val). val + s * elem deltaq i) (enumerate 0 startq))"

definition C_coeff :: "num list \<Rightarrow> num list \<Rightarrow> nat \<Rightarrow> num list" where
  "C_coeff startq deltaq k =
     (let statePos = map zero_state (q_curr startq deltaq k)
      in calculateGravityTorques statePos ROBOT_PARAMS)"

definition A_coeff :: "num list \<Rightarrow> num list \<Rightarrow> nat \<Rightarrow> num list" where
  "A_coeff startq deltaq k =
     (let C = C_coeff startq deltaq k;
          stateAcc = map (\<lambda>(i, a). (zero_state a)\<lparr>acceleration := elem deltaq i\<rparr>)
                       (enumerate 0 (q_curr startq deltaq k));
          tau_acc = calculateInverseDynamics stateAcc ROBOT_PARAMS
      in map (\<lambda>(i, t). t - elem C i) (enumerate 0 tau_acc))"

definition B_coeff :: "num list \<Rightarrow> num list \<Rightarrow> nat \<Rightarrow> num list" where
  "B_coeff startq deltaq k =
     (let C = C_coeff startq deltaq k;
          stateVel = map (\<lambda>(i, a). (zero_state a)\<lparr>velocity := elem deltaq i\<rparr>)
                       (enumerate 0 (q_curr startq deltaq k));
          tau_vel = calculateInverseDynamics stateVel ROBOT_PARAMS
      in map (\<lambda>(i, t). t - elem C i) (enumerate 0 tau_vel))"

record Coeffs =
  A_coeffs :: "num list list"
  B_coeffs :: "num list list"
  C_coeffs :: "num list list"

definition coefficients :: "num list \<Rightarrow> num list \<Rightarrow> Coeffs" where
  "coefficients startq deltaq =
     \<lparr>A_coeffs = map (A_coeff startq deltaq) [0..<N_GRID + 1],
      B_coeffs = map (B_coeff startq deltaq) [0..<N_GRID + 1],
      C_coeffs = map (C_coeff startq deltaq) [0..<N_GRID + 1]\<rparr>"

subsection \<open>2. Maximum velocity curve\<close>

definition mvc_joint :: "num list \<Rightarrow> num list \<Rightarrow> num \<Rightarrow> nat \<Rightarrow> num" where
  "mvc_joint B C max_sd_sq i =
     (let b = elem B i; c = elem C i; t_lim = elem MAX_TORQUES i
      in if Fin 0 < b then
           (let nm = t_lim - c
            in if nm < Fin 0 then Fin 0 else Math_min max_sd_sq (nm / b))
         else if b < Fin 0 then
           (let nm = - t_lim - c
            in if Fin 0 < nm then Fin 0 else Math_min max_sd_sq (nm / b))
         else max_sd_sq)"

definition mvc_point :: "num list \<Rightarrow> num list \<Rightarrow> num" where
  "mvc_point B C = Math_sqrt (Math_max (Fin 0) (foldl (mvc_joint B C) PInf [0..<6]))"

definition mvc_loop :: "Coeffs \<Rightarrow> num list" where
  "mvc_loop co = map (\<lambda>k. mvc_point (B_coeffs co ! k) (C_coeffs co ! k)) [0..<N_GRID + 1]"

definition s_dot_limit :: "Coeffs \<Rightarrow> num list" where
  "s_dot_limit co = (mvc_loop co)[0 := Fin 0, N_GRID := Fin 0]"

subsection \<open>3. Acceleration bounds\<close>

record Bounds =
  min_u :: num
  max_u :: num

text \<open>
  One joint of the loop of \<open>getAccBounds\<close>; \<open>None\<close> is the early \<open>return null\<close>, which
  the remaining iterations pass on.
\<close>

definition acc_joint ::
  "(nat \<Rightarrow> num \<Rightarrow> num) \<Rightarrow> Coeffs \<Rightarrow> num list \<Rightarrow> nat \<Rightarrow> num \<Rightarrow> (num \<times> num) option \<Rightarrow> nat
     \<Rightarrow> (num \<times> num) option" where
  "acc_joint fr co deltaq k s_dot st i =
     (case st of
        None \<Rightarrow> None
      | Some (u_min, u_max) \<Rightarrow>
          (let sd_sq = s_dot * s_dot;
               a = elem (A_coeffs co ! k) i;
               b = elem (B_coeffs co ! k) i;
               c = elem (C_coeffs co ! k) i;
               vel_i = s_dot * elem deltaq i;
               f = fr i vel_i;
               rigid_part = b * sd_sq + c;
               total_bias = rigid_part + f;
               t_max = elem MAX_TORQUES i;
               t_min = - elem MAX_TORQUES i;
               lower = t_min - total_bias;
               upper = t_max - total_bias
           in if Math_abs a < Fin 0.00001 then
                (if Fin 0 < lower \<or> upper < Fin 0 then None else Some (u_min, u_max))
              else if Fin 0 < a then
                Some (Math_max u_min (lower / a), Math_min u_max (upper / a))
              else
                Some (Math_max u_min (upper / a), Math_min u_max (lower / a))))"

definition getAccBounds ::
  "(nat \<Rightarrow> num \<Rightarrow> num) \<Rightarrow> Coeffs \<Rightarrow> num list \<Rightarrow> nat \<Rightarrow> num \<Rightarrow> Bounds option" where
  "getAccBounds fr co deltaq k s_dot =
     (case foldl (acc_joint fr co deltaq k s_dot) (Some (MInf, PInf)) [0..<6] of
        None \<Rightarrow> None
      | Some (u_min, u_max) \<Rightarrow>
          if u_max < u_min then None else Some \<lparr>min_u = u_min, max_u = u_max\<rparr>)"

subsection \<open>4. Backward pass\<close>

definition ds :: num where
  "ds = Fin 1 / Fin (real N_GRID)"

definition backward_step ::
  "(nat \<Rightarrow> num \<Rightarrow> num) \<Rightarrow> Coeffs \<Rightarrow> num list \<Rightarrow> num list \<Rightarrow> num list \<Rightarrow> nat \<Rightarrow> num list" where
  "backward_step fr co deltaq s_limit beta k =
     (let s_dot_next = Math_min (beta ! (k + 1)) (s_limit ! (k + 1));
          bounds = getAccBounds fr co deltaq (k + 1) s_dot_next
      in case bounds of
           None \<Rightarrow> beta[k := Fin 0]
         | Some b \<Rightarrow>
             (let sd_sq_curr = s_dot_next * s_dot_next - Fin 2 * min_u b * ds;
                  beta = beta[k := Math_sqrt (Math_max (Fin 0) sd_sq_curr)]
              in beta[k := Math_min (beta ! k) (s_limit ! k)]))"

definition beta_curve ::
  "(nat \<Rightarrow> num \<Rightarrow> num) \<Rightarrow> Coeffs \<Rightarrow> num list \<Rightarrow> num list \<Rightarrow> num list" where
  "beta_curve fr co deltaq s_limit =
     foldl (backward_step fr co deltaq s_limit)
       ((replicate (N_GRID + 1) (Fin 0))[N_GRID := Fin 0]) (rev [0..<N_GRID])"

subsection \<open>5. Forward pass\<close>

text \<open>The loop state is the array \<open>raw_s_ddot\<close> and the variable \<open>s_dot_curr\<close>.\<close>

definition forward_step ::
  "(nat \<Rightarrow> num \<Rightarrow> num) \<Rightarrow> Coeffs \<Rightarrow> num list \<Rightarrow> num list \<Rightarrow> num list \<times> num \<Rightarrow> nat
     \<Rightarrow> num list \<times> num" where
  "forward_step fr co deltaq beta st k =
     (let raw = fst st; s_dot_curr = snd st;
          bounds = getAccBounds fr co deltaq k s_dot_curr;
          s_ddot =
            (case bounds of
               None \<Rightarrow> Fin 0
             | Some b \<Rightarrow>
                 (let s_ddot = max_u b;
                      max_next_sq = beta ! (k + 1) * beta ! (k + 1);
                      projected_sq = s_dot_curr * s_dot_curr + Fin 2 * s_ddot * ds
                  in if max_next_sq < projected_sq
                     then (max_next_sq - s_dot_curr * s_dot_curr) / (Fin 2 * ds)
                     else s_ddot));
          raw = raw[k := s_ddot];
          next_sd_sq = Math_max (Fin 0) (s_dot_curr * s_dot_curr + Fin 2 * s_ddot * ds)
      in (raw, Math_sqrt next_sd_sq))"

text \<open>The state after the first \<open>n\<close> iterations of the forward loop.\<close>

definition forward_pass ::
  "(nat \<Rightarrow> num \<Rightarrow> num) \<Rightarrow> Coeffs \<Rightarrow> num list \<Rightarrow> num list \<Rightarrow> nat \<Rightarrow> num list \<times> num" where
  "forward_pass fr co deltaq beta n =
     foldl (forward_step fr co deltaq beta) (replicate N_GRID (Fin 0), Fin 0) [0..<n]"

subsection \<open>6. Smoothing pass\<close>

definition windowSize :: int where
  "windowSize = 10"

definition window_step :: "num list \<Rightarrow> nat \<Rightarrow> num \<times> nat \<Rightarrow> int \<Rightarrow> num \<times> nat" where
  "window_step raw k st w =
     (let idx = int k + w
      in if 0 \<le> idx \<and> idx < int N_GRID then (fst st + raw ! nat idx, snd st + 1) else st)"

definition smooth_at :: "num list \<Rightarrow> nat \<Rightarrow> num" where
  "smooth_at raw k =
     (let st = foldl (window_step raw k) (Fin 0, 0) [- windowSize..windowSize];
          avg = fst st / Fin (real (snd st))
      in if Math_abs avg < Fin 0.5 then Fin 0 else avg)"

definition smooth_s_ddot :: "num list \<Rightarrow> num list" where
  "smooth_s_ddot raw = map (smooth_at raw) [0..<N_GRID]"

subsection \<open>7. Final integration\<close>

text \<open>The loop state is \<open>points\<close>, \<open>t_curr\<close> and \<open>s_dot_curr\<close>.\<close>

definition integ_step ::
  "num list \<Rightarrow> num list \<Rightarrow> num list \<Rightarrow> Frame list \<times> num \<times> num \<Rightarrow> nat \<Rightarrow> Frame list \<times> num \<times> num" where
  "integ_step startq deltaq smooth st k =
     (let pts = fst st; t_curr = fst (snd st); s_dot_curr = snd (snd st);
          s_ddot = smooth ! k;
          next_sd_sq = Math_max (Fin 0) (s_dot_curr * s_dot_curr + Fin 2 * s_ddot * ds);
          s_dot_next = Math_sqrt next_sd_sq;
          v_avg = (s_dot_curr + s_dot_next) / Fin 2;
          dt = (if Fin 0.0001 < v_avg then ds / v_avg else Fin 0.01);
          dt = dt * PLAYBACK_SPEED_FACTOR;
          dt = Math_max dt (Fin 0.0001);
          t_curr = t_curr + dt;
          s_next = Fin (real (k + 1)) / Fin (real N_GRID);
          frameJoints = map (\<lambda>(i, startAngle).
                          \<lparr>angle = startAngle + s_next * elem deltaq i,
                           velocity = s_dot_next * elem deltaq i,
                           acceleration = s_ddot * elem deltaq i,
                           torque = Fin 0\<rparr>)
                        (enumerate 0 startq)
      in (pts @ [\<lparr>joints = frameJoints, time = t_curr\<rparr>], t_curr, s_dot_next))"

definition integrate :: "num list \<Rightarrow> num list \<Rightarrow> num list \<Rightarrow> Frame list \<times> num \<times> num" where
  "integrate startq deltaq smooth =
     (let startFrame = \<lparr>joints = map zero_state startq, time = Fin 0\<rparr>
      in foldl (integ_step startq deltaq smooth) ([startFrame], Fin 0, Fin 0) [0..<N_GRID])"

subsection \<open>The planner\<close>

definition delta :: "num list \<Rightarrow> num list \<Rightarrow> num list" where
  "delta startq endq = map (\<lambda>(i, e). e - elem startq i) (enumerate 0 endq)"

definition distance :: "num list \<Rightarrow> num" where
  "distance deltaq = Math_sqrt (foldl (\<lambda>a b. a + b * b) (Fin 0) deltaq)"

text \<open>The solver path: everything after the distance check.\<close>

definition solve :: "(nat \<Rightarrow> num \<Rightarrow> num) \<Rightarrow> num list \<Rightarrow> num list \<Rightarrow> Trajectory" where
  "solve fr startq deltaq =
     (let co = coefficients startq deltaq;
          s_limit = s_dot_limit co;
          beta = beta_curve fr co deltaq s_limit;
          raw_s_ddot = fst (forward_pass fr co deltaq beta N_GRID);
          smooth = smooth_s_ddot raw_s_ddot;
          st = integrate startq deltaq smooth
      in \<lparr>points = fst st, duration = fst (snd st)\<rparr>)"

text \<open>The body of the \<open>try\<close> block.\<close>

definition try_body ::
  "(nat \<Rightarrow> num \<Rightarrow> num) \<Rightarrow> JointState list \<Rightarrow> JointState list \<Rightarrow> error + Trajectory" where
  "try_body fr startJoints endJoints =
     (let startq = map angle startJoints;
          endq = map angle endJoints;
          deltaq = delta startq endq;
          dist = distance deltaq
      in if dist < Fin 0.001 then generateLinearFallback startJoints endJoints
         else Inr (solve fr startq deltaq))"

text \<open>\<open>try { ... } catch (error) { return generateLinearFallback(startJoints, endJoints) }\<close>\<close>

definition generateTimeOptimalTrajectory ::
  "(nat \<Rightarrow> num \<Rightarrow> num) \<Rightarrow> JointState list \<Rightarrow> JointState list \<Rightarrow> error + Trajectory" where
  "generateTimeOptimalTrajectory fr startJoints endJoints =
     (case try_body fr startJoints endJoints of
        Inr result \<Rightarrow> Inr result
      | Inl err \<Rightarrow> generateLinearFallback startJoints endJoints)"

section \<open>The planner with a friction model that can throw\<close>

text \<open>
  The code of \<open>calculateJointFriction\<close> is not at hand, so a call of it may throw instead
  of returning. In this section the friction model is a function \<open>ffr\<close> that returns a
  torque (\<open>Inr\<close>) or throws (\<open>Inl\<close>), and the exception takes the way it takes in the
  code: out of \<open>getAccBounds\<close>, out of the backward or the forward pass that called it, out
  of the \<open>try\<close> block and into the \<open>catch\<close> block. The definitions are those of the
  previous section from \<open>getAccBounds\<close> on, with the exception passed on at every step;
  the coefficients, the maximum velocity curve, the smoothing and the final integration do
  not call the friction model and are the ones above.
\<close>

text \<open>
  One joint of \<open>getAccBounds\<close>. After the early \<open>return null\<close> the friction model is
  not called any more.
\<close>

definition acc_joint_exc ::
  "(nat \<Rightarrow> num \<Rightarrow> error + num) \<Rightarrow> Coeffs \<Rightarrow> num list \<Rightarrow> nat \<Rightarrow> num
     \<Rightarrow> error + (num \<times> num) option \<Rightarrow> nat \<Rightarrow> error + (num \<times> num) option" where
  "acc_joint_exc ffr co deltaq k s_dot st i =
     (case st of
        Inl err \<Rightarrow> Inl err
      | Inr None \<Rightarrow> Inr None
      | Inr (Some (u_min, u_max)) \<Rightarrow>
          (let sd_sq = s_dot * s_dot;
               a = elem (A_coeffs co ! k) i;
               b = elem (B_coeffs co ! k) i;
               c = elem (C_coeffs co ! k) i;
               vel_i = s_dot * elem deltaq i
           in case ffr i vel_i of
                Inl err \<Rightarrow> Inl err
              | Inr f \<Rightarrow>
                  (let rigid_part = b * sd_sq + c;
                       total_bias = rigid_part + f;
                       t_max = elem MAX_TORQUES i;
                       t_min = - elem MAX_TORQUES i;
                       lower = t_min - total_bias;
                       upper = t_max - total_bias
                   in if Math_abs a < Fin 0.00001 then
                        (if Fin 0 < lower \<or> upper < Fin 0 then Inr None
                         else Inr (Some (u_min, u_max)))
                      else if Fin 0 < a then
                        Inr (Some (Math_max u_min (lower / a), Math_min u_max (upper / a)))
                      else
                        Inr (Some (Math_max u_min (upper / a), Math_min u_max (lower / a))))))"

definition getAccBounds_exc ::
  "(nat \<Rightarrow> num \<Rightarrow> error + num) \<Rightarrow> Coeffs \<Rightarrow> num list \<Rightarrow> nat \<Rightarrow> num
     \<Rightarrow> error + Bounds option" where
  "getAccBounds_exc ffr co deltaq k s_dot =
     (case foldl (acc_joint_exc ffr co deltaq k s_dot) (Inr (Some (MInf, PInf))) [0..<6] of
        Inl err \<Rightarrow> Inl err
      | Inr None \<Rightarrow> Inr None
      | Inr (Some (u_min, u_max)) \<Rightarrow>
          if u_max < u_min then Inr None else Inr (Some \<lparr>min_u = u_min, max_u = u_max\<rparr>))"

text \<open>One iteration of the backward pass, and the pass.\<close>

definition backward_step_exc ::
  "(nat \<Rightarrow> num \<Rightarrow> error + num) \<Rightarrow> Coeffs \<Rightarrow> num list \<Rightarrow> num list
     \<Rightarrow> error + num list \<Rightarrow> nat \<Rightarrow> error + num list" where
  "backward_step_exc ffr co deltaq s_limit st k =
     (case st of
        Inl err \<Rightarrow> Inl err
      | Inr beta \<Rightarrow>
          (let s_dot_next = Math_min (beta ! (k + 1)) (s_limit ! (k + 1))
           in case getAccBounds_exc ffr co deltaq (k + 1) s_dot_next of
                Inl err \<Rightarrow> Inl err
              | Inr None \<Rightarrow> Inr (beta[k := Fin 0])
              | Inr (Some b) \<Rightarrow>
                  (let sd_sq_curr = s_dot_next * s_dot_next - Fin 2 * min_u b * ds;
                       beta = beta[k := Math_sqrt (Math_max (Fin 0) sd_sq_curr)]
                   in Inr (beta[k := Math_min (beta ! k) (s_limit ! k)]))))"

definition beta_curve_exc ::
  "(nat \<Rightarrow> num \<Rightarrow> error + num) \<Rightarrow> Coeffs \<Rightarrow> num list \<Rightarrow> num list \<Rightarrow> error + num list" where
  "beta_curve_exc ffr co deltaq s_limit =
     foldl (backward_step_exc ffr co deltaq s_limit)
       (Inr ((replicate (N_GRID + 1) (Fin 0))[N_GRID := Fin 0])) (rev [0..<N_GRID])"

text \<open>One iteration of the forward pass, and the pass.\<close>

definition forward_step_exc ::
  "(nat \<Rightarrow> num \<Rightarrow> error + num) \<Rightarrow> Coeffs \<Rightarrow> num list \<Rightarrow> num list
     \<Rightarrow> error + num list \<times> num \<Rightarrow> nat \<Rightarrow> error + num list \<times> num" where
  "forward_step_exc ffr co deltaq beta st k =
     (case st of
        Inl err \<Rightarrow> Inl err
      | Inr (raw, s_dot_curr) \<Rightarrow>
          (case getAccBounds_exc ffr co deltaq k s_dot_curr of
             Inl err \<Rightarrow> Inl err
           | Inr bounds \<Rightarrow>
               (let s_ddot =
                      (case bounds of
                         None \<Rightarrow> Fin 0
                       | Some b \<Rightarrow>
                           (let s_ddot = max_u b;
                                max_next_sq = beta ! (k + 1) * beta ! (k + 1);
                                projected_sq = s_dot_curr * s_dot_curr + Fin 2 * s_ddot * ds
                            in if max_next_sq < projected_sq
                               then (max_next_sq - s_dot_curr * s_dot_curr) / (Fin 2 * ds)
                               else s_ddot));
                    raw = raw[k := s_ddot];
                    next_sd_sq = Math_max (Fin 0) (s_dot_curr * s_dot_curr + Fin 2 * s_ddot * ds)
                in Inr (raw, Math_sqrt next_sd_sq))))"

definition forward_pass_exc ::
  "(nat \<Rightarrow> num \<Rightarrow> error + num) \<Rightarrow> Coeffs \<Rightarrow> num list \<Rightarrow> num list \<Rightarrow> nat
     \<Rightarrow> error + num list \<times> num" where
  "forward_pass_exc ffr co deltaq beta n =
     foldl (forward_step_exc ffr co deltaq beta) (Inr (replicate N_GRID (Fin 0), Fin 0)) [0..<n]"

text \<open>The solver path, the body of the \<open>try\<close> block, and the planner with its \<open>catch\<close>.\<close>

definition solve_exc ::
  "(nat \<Rightarrow> num \<Rightarrow> error + num) \<Rightarrow> num list \<Rightarrow> num list \<Rightarrow> error + Trajectory" where
  "solve_exc ffr startq deltaq =
     (let co = coefficients startq deltaq;
          s_limit = s_dot_limit co
      in case beta_curve_exc ffr co deltaq s_limit of
           Inl err \<Rightarrow> Inl err
         | Inr beta \<Rightarrow>
             (case forward_pass_exc ffr co deltaq beta N_GRID of
                Inl err \<Rightarrow> Inl err
              | Inr fwd \<Rightarrow>
                  (let raw_s_ddot = fst fwd;
                       smooth = smooth_s_ddot raw_s_ddot;
                       st = integrate startq deltaq smooth
                   in Inr \<lparr>points = fst st, duration = fst (snd st)\<rparr>)))"

definition try_body_exc ::
  "(nat \<Rightarrow> num \<Rightarrow> error + num) \<Rightarrow> JointState list \<Rightarrow> JointState list \<Rightarrow> error + Trajectory" where
  "try_body_exc ffr startJoints endJoints =
     (let startq = map angle startJoints;
          endq = map angle endJoints;
          deltaq = delta startq endq;
          dist = distance deltaq
      in if dist < Fin 0.001 then generateLinearFallback startJoints endJoints
         else solve_exc ffr startq deltaq)"

definition generateTimeOptimalTrajectory_exc ::
  "(nat \<Rightarrow> num \<Rightarrow> error + num) \<Rightarrow> JointState list \<Rightarrow> JointState list \<Rightarrow> error + Trajectory" where
  "generateTimeOptimalTrajectory_exc ffr startJoints endJoints =
     (case try_body_exc ffr startJoints endJoints of
        Inr result \<Rightarrow> Inr result
      | Inl err \<Rightarrow> generateLinearFallback startJoints endJoints)"

section \<open>Playback controller (App.tsx)\<close>

text \<open>
  The controller keeps its state in React references. Its effects are made explicit: the
  clock reading \<open>Date.now()\<close> of a tick is the argument \<open>now\<close>, the successive results of
  \<open>Math.random()\<close> are a stream \<open>random\<close> of which the state counts the draws consumed,
  and what a tick passes to \<open>setJoints\<close> is returned beside the new state. Only the
  TOPP-RA mode of \<open>loopCallback\<close> is modelled; the chart history is left out.
\<close>

definition DWELL_TIME :: num where
  "DWELL_TIME = Fin 0.5"

definition SAFE_LIMITS :: "(num \<times> num) list" where
  "SAFE_LIMITS =
     [(Fin (- 2), Fin 2), (Fin (- 1), Fin 1), (Fin (- 1), Fin 0.5),
      (Fin (- 2), Fin 2), (Fin (- 1.5), Fin 1.5), (Fin (- 3), Fin 3)]"

record Playback =
  jointsRef :: "JointState list"
  startTimeRef :: num
  isPlayingRef :: bool
  trajectoryRef :: "Frame list"
  trajStartElapsedRef :: num
  dwellStartTimeRef :: "num option"
  isDwelling :: bool
  randomCalls :: nat

definition random_target :: "(nat \<Rightarrow> num) \<Rightarrow> nat \<Rightarrow> JointState list \<Rightarrow> JointState list" where
  "random_target random calls current =
     map (\<lambda>(i, j).
            (let mn = fst (SAFE_LIMITS ! i); mx = snd (SAFE_LIMITS ! i);
                 range = mx - mn;
                 randomAngle = mn + random (calls + i) * range
             in j\<lparr>angle := randomAngle, velocity := Fin 0, acceleration := Fin 0,
                  torque := Fin 0\<rparr>))
         (enumerate 0 current)"

text \<open>
  The loop \<open>while (dist < 2.0 && attempts < 15)\<close>, by recursion on the attempts that are
  left; the state is \<open>target\<close>, \<open>dist\<close> (here \<open>dst\<close>) and the number of random draws consumed.
\<close>

fun target_loop ::
  "(nat \<Rightarrow> num) \<Rightarrow> JointState list \<Rightarrow> nat \<Rightarrow> JointState list \<times> num \<times> nat
     \<Rightarrow> JointState list \<times> num \<times> nat" where
  "target_loop random current 0 st = st"
| "target_loop random current (Suc left) (target, dst, calls) =
     (if dst < Fin 2 then
        (let target = random_target random calls current;
             dst = Math_sqrt (foldl (\<lambda>acc (i, t).
                       acc + (angle t - angle (current ! i)) * (angle t - angle (current ! i)))
                     (Fin 0) (enumerate 0 target))
         in target_loop random current left (target, dst, calls + length current))
      else (target, dst, calls))"

text \<open>
  \<open>planNextToppraMove\<close>. Destructuring \<open>SAFE_LIMITS[i]\<close> raises for a joint beyond the sixth.
\<close>

definition planNextToppraMove ::
  "(nat \<Rightarrow> num \<Rightarrow> num) \<Rightarrow> (nat \<Rightarrow> num) \<Rightarrow> Playback \<Rightarrow> error + Playback" where
  "planNextToppraMove fr random st =
     (let current = jointsRef st
      in if length SAFE_LIMITS < length current then Inl TypeError
         else
           (let found = target_loop random current 15 ([], Fin 0, randomCalls st);
                target = fst found
            in case generateTimeOptimalTrajectory fr current target of
                 Inl err \<Rightarrow> Inl err
               | Inr result \<Rightarrow>
                   Inr (st\<lparr>trajectoryRef := points result,
                           dwellStartTimeRef := None,
                           trajStartElapsedRef := Fin (- 1),
                           randomCalls := snd (snd found)\<rparr>)))"

definition findIndex :: "('a \<Rightarrow> bool) \<Rightarrow> 'a list \<Rightarrow> nat option" where
  "findIndex p xs = (if \<exists>x \<in> set xs. p x then Some (length (takeWhile (\<lambda>x. \<not> p x) xs)) else None)"

text \<open>The physics update at the end of a tick, and the hand-over to \<open>setJoints\<close>.\<close>

definition physics_update :: "(nat \<Rightarrow> num \<Rightarrow> num) \<Rightarrow> JointState list \<Rightarrow> JointState list" where
  "physics_update fr newJoints =
     (let dynamicsTorques = calculateInverseDynamics newJoints ROBOT_PARAMS;
          frictionTorques = map (\<lambda>(i, j). fr i (velocity j)) (enumerate 0 newJoints);
          totalTorques = map (\<lambda>(i, t). t + elem frictionTorques i) (enumerate 0 dynamicsTorques)
      in map (\<lambda>(i, j). j\<lparr>torque := elem totalTorques i\<rparr>) (enumerate 0 newJoints))"

definition emit ::
  "(nat \<Rightarrow> num \<Rightarrow> num) \<Rightarrow> Playback \<Rightarrow> JointState list
     \<Rightarrow> error + Playback \<times> JointState list option" where
  "emit fr st newJoints =
     (let jointsWithTorque = physics_update fr newJoints
      in Inr (st\<lparr>jointsRef := jointsWithTorque\<rparr>, Some jointsWithTorque))"

definition loopCallback ::
  "(nat \<Rightarrow> num \<Rightarrow> num) \<Rightarrow> (nat \<Rightarrow> num) \<Rightarrow> num \<Rightarrow> Playback
     \<Rightarrow> error + Playback \<times> JointState list option" where
  "loopCallback fr random now st =
     (if \<not> isPlayingRef st then Inr (st, None)
      else
        (let elapsed = (now - startTimeRef st) / Fin 1000;
             st = (if trajStartElapsedRef st < Fin 0 then st\<lparr>trajStartElapsedRef := elapsed\<rparr>
                   else st)
         in case dwellStartTimeRef st of
              Some dwellStart \<Rightarrow>
                (let st = st\<lparr>isDwelling := True\<rparr>
                 in case (if DWELL_TIME < (now - dwellStart) / Fin 1000
                          then planNextToppraMove fr random st else Inr st) of
                      Inl err \<Rightarrow> Inl err
                    | Inr st \<Rightarrow>
                        emit fr st
                          (map (\<lambda>j. j\<lparr>velocity := Fin 0, acceleration := Fin 0\<rparr>) (jointsRef st)))
            | None \<Rightarrow>
                (let st = st\<lparr>isDwelling := False\<rparr>;
                     moveTime = elapsed - trajStartElapsedRef st;
                     traj = trajectoryRef st
                 in if traj = [] then
                      (case planNextToppraMove fr random st of
                         Inl err \<Rightarrow> Inl err
                       | Inr st \<Rightarrow> Inr (st, None))
                    else
                      (case findIndex (\<lambda>frame. moveTime \<le> time frame) traj of
                         Some frameIndex \<Rightarrow> emit fr st (joints (traj ! frameIndex))
                       | None \<Rightarrow>
                           emit fr (st\<lparr>dwellStartTimeRef := Some now\<rparr>) (joints (last traj))))))"

definition INITIAL_JOINTS :: "JointState list" where
  "INITIAL_JOINTS =
     replicate 6 \<lparr>angle = Fin 0, velocity = Fin 0, acceleration = Fin 0, torque = Fin 0\<rparr>"

section \<open>Notions used in the statements\<close>

text \<open>A state of the robot is valid when it has six joints and all its fields are finite.\<close>

definition valid_state :: "JointState list \<Rightarrow> bool" where
  "valid_state js =
     (length js = 6 \<and>
      list_all (\<lambda>j. finite_num (angle j) \<and> finite_num (velocity j)
                   \<and> finite_num (acceleration j) \<and> finite_num (torque j)) js)"

text \<open>The timestamps of a sequence of frames increase strictly.\<close>

definition increasing_times :: "Frame list \<Rightarrow> bool" where
  "increasing_times fs = sorted_wrt (\<lambda>f g. time f < time g) fs"

text \<open>
  The invariant of the final integration loop: the first frame stays, the timestamps
  increase, and the clock \<open>t_curr\<close> is finite and is the timestamp of the last frame.
\<close>

definition integ_inv :: "Frame \<Rightarrow> Frame list \<times> num \<times> num \<Rightarrow> bool" where
  "integ_inv f0 st =
     (fst st \<noteq> [] \<and> hd (fst st) = f0 \<and> increasing_times (fst st)
      \<and> (\<exists>r. fst (snd st) = Fin r) \<and> time (last (fst st)) = fst (snd st)
      \<and> (\<forall>f \<in> set (fst st). time f \<le> fst (snd st)))"

text \<open>
  The elapsed move time \<open>moveTime\<close> that a tick of the controller computes in the Moving
  state (after it has anchored the start of a new move).
\<close>

definition moveTime_of :: "num \<Rightarrow> Playback \<Rightarrow> num" where
  "moveTime_of now st =
     (let elapsed = (now - startTimeRef st) / Fin 1000
      in elapsed - (if trajStartElapsedRef st < Fin 0 then elapsed else trajStartElapsedRef st))"

text \<open>
  Sample inputs: a friction model that is zero everywhere, a trajectory of three frames of
  which the last one is not at rest, and the controller in its Moving state at the start of
  a given trajectory.
\<close>

definition frictionless :: "nat \<Rightarrow> num \<Rightarrow> num" where
  "frictionless i v = Fin 0"

definition three_frames :: "Frame list" where
  "three_frames =
     [\<lparr>joints = INITIAL_JOINTS, time = Fin 0\<rparr>,
      \<lparr>joints = map (\<lambda>j. j\<lparr>angle := Fin 1, velocity := Fin 2, acceleration := Fin 3\<rparr>)
                  INITIAL_JOINTS,
       time = Fin 1\<rparr>,
      \<lparr>joints = map (\<lambda>j. j\<lparr>angle := Fin 2, velocity := Fin 5, acceleration := Fin 7\<rparr>)
                  INITIAL_JOINTS,
       time = Fin 2\<rparr>]"

definition playing_controller :: "Frame list \<Rightarrow> Playback" where
  "playing_controller traj =
     \<lparr>jointsRef = INITIAL_JOINTS, startTimeRef = Fin 0, isPlayingRef = True,
      trajectoryRef = traj, trajStartElapsedRef = Fin 0, dwellStartTimeRef = None,
      isDwelling = False, randomCalls = 0\<rparr>"

text \<open>The array of the six finite numbers \<open>p 0\<close>, ..., \<open>p 5\<close>.\<close>

definition fins :: "(nat \<Rightarrow> real) \<Rightarrow> num list" where
  "fins p = map (\<lambda>i. Fin (p i)) [0..<6]"

text \<open>
  The entry of a joint other than the base in the result of \<open>calculateInverseDynamics\<close>:
  gravity, inertia and the velocity term.
\<close>

definition id_entry :: "DynamicsParams \<Rightarrow> num list \<Rightarrow> num list \<Rightarrow> num list \<Rightarrow> nat \<Rightarrow> num" where
  "id_entry params g qd qdd i =
     g ! i + (elem (masses params) i * (elem (lengths params) i * elem (lengths params) i)
              + Fin (real (5 - i)) * Fin 0.5) * elem qdd i
       + Fin 0.1 * elem qd i * Math_abs (elem qd i)"

text \<open>
  With the parameters of the robot, the coefficient rows of a path between finite
  configurations are: \<open>A = a_gain i * deltaq i\<close>, \<open>B = 0.1 * deltaq i * |deltaq i|\<close>
  (0 for the base joint), and \<open>C = gravity_c\<close>.
\<close>

definition a_gain :: "nat \<Rightarrow> real" where
  "a_gain i = [2.25, 8 * (0.27 * 0.27) + 2, 6 * (0.3 * 0.3) + 1.5, 2 * (0.1 * 0.1) + 1,
               1 * (0.05 * 0.05) + 0.5, 0.5 * (0.05 * 0.05)] ! i"

definition gravity_c :: "(nat \<Rightarrow> real) \<Rightarrow> (nat \<Rightarrow> real) \<Rightarrow> nat \<Rightarrow> nat \<Rightarrow> real" where
  "gravity_c p d k i =
     (let q = (\<lambda>j. p j + real k / 200 * d j)
      in [0, 16 * 9.81 * 0.13 * cos (q 1), 8 * 9.81 * 0.15 * cos (q 1 + q 2), 0,
          1 * 9.81 * 0.02 * cos (q 1 + q 2 + q 4), 0] ! i)"

text \<open>The value of a finite number.\<close>

definition real_of :: "num \<Rightarrow> real" where
  "real_of x = (case x of Fin a \<Rightarrow> a | _ \<Rightarrow> 0)"

text \<open>
  The static box constraint of one joint on \<open>x\<close>, the square of the path velocity:
  \<open>-T \<le> b x + c \<le> T\<close>, for a square \<open>x \<ge> 0\<close>.
\<close>

definition static_ok :: "real \<Rightarrow> real \<Rightarrow> real \<Rightarrow> real \<Rightarrow> bool" where
  "static_ok b c T x = (0 \<le> x \<and> - T \<le> b * x + c \<and> b * x + c \<le> T)"

text \<open>
  The largest square of the path velocity that satisfies the constraint of one joint: there
  is none when no velocity satisfies it, there is no bound when all do, and otherwise it is
  a number. The three cases \<open>b > 0\<close>, \<open>b < 0\<close> and \<open>b = 0\<close> are solved separately.
\<close>

datatype limit = Infeasible | Unbounded | AtMost real

definition static_limit :: "real \<Rightarrow> real \<Rightarrow> real \<Rightarrow> limit" where
  "static_limit b c T =
     (if 0 < b then (if T < c then Infeasible else AtMost ((T - c) / b))
      else if b < 0 then (if c < - T then Infeasible else AtMost ((- T - c) / b))
      else (if - T \<le> c \<and> c \<le> T then Unbounded else Infeasible))"

text \<open>
  The value of the velocity limit curve at a grid point: an infeasible joint forces 0; the
  minimum over the joints is clamped at 0 and its square root is taken.
\<close>

fun limit_value :: "limit \<Rightarrow> num" where
  "limit_value Infeasible = Fin 0"
| "limit_value Unbounded = PInf"
| "limit_value (AtMost m) = Fin m"

definition velocity_limit :: "limit list \<Rightarrow> num" where
  "velocity_limit ms =
     Math_sqrt (Math_max (Fin 0) (foldr (\<lambda>m least. Math_min (limit_value m) least) ms PInf))"

text \<open>A number that is neither negative nor \<open>NaN\<close>.\<close>

definition nonneg :: "num \<Rightarrow> bool" where
  "nonneg x = (case x of Fin a \<Rightarrow> 0 \<le> a | PInf \<Rightarrow> True | _ \<Rightarrow> False)"

text \<open>
  A friction model resists when, for every joint, the friction at rest is at most 9 Nm in
  size and the friction of the last joint at 10 rad/s is positive.
\<close>

definition resisting :: "(nat \<Rightarrow> num \<Rightarrow> num) \<Rightarrow> bool" where
  "resisting fr =
     ((\<forall>i<6. \<exists>f. fr i (Fin 0) = Fin f \<and> \<bar>f\<bar> \<le> 9) \<and> (\<exists>f>0. fr 5 (Fin 10) = Fin f))"

text \<open>Coulomb friction of 1 Nm against the motion.\<close>

definition coulomb :: "nat \<Rightarrow> num \<Rightarrow> num" where
  "coulomb i v = (if Fin 0 < v then Fin 1 else if v < Fin 0 then Fin (- 1) else Fin 0)"

text \<open>A short move of the last joint alone, from the initial configuration: 0.004 rad.\<close>

definition wrist_d :: "nat \<Rightarrow> real" where
  "wrist_d i = (if i = 5 then 0.004 else 0)"

text \<open>The end state of the short wrist move, and the coefficients of its path.\<close>

definition wrist_target :: "JointState list" where
  "wrist_target = map (\<lambda>i. zero_state (Fin (wrist_d i))) [0..<6]"

definition wrist_co :: Coeffs where
  "wrist_co = coefficients (fins (\<lambda>i. 0)) (fins wrist_d)"

text \<open>The backward curve of the short wrist move under a resisting friction model.\<close>

definition wrist_beta :: "nat \<Rightarrow> num list" where
  "wrist_beta k = map (\<lambda>j. if k \<le> j \<and> odd j then Fin 2500 else Fin 0) [0..<N_GRID + 1]"

text \<open>The raw acceleration profile of the short wrist move: one push, then nothing.\<close>

definition wrist_raw :: "num list" where
  "wrist_raw = (replicate N_GRID (Fin 0))[0 := Fin 625000000]"

text \<open>
  A state of the final integration loop in which the path velocity is at least 750 and the
  last joint of the last frame moves accordingly.
\<close>

definition fast :: "Frame list \<times> num \<times> num \<Rightarrow> bool" where
  "fast st =
     (\<exists>y\<ge>750. snd (snd st) = Fin y \<and> fst st \<noteq> []
        \<and> velocity (joints (last (fst st)) ! 5) = Fin (y * 0.004))"

text \<open>The samples that the planner returns for the short wrist move under Coulomb friction.\<close>

definition wrist_trajectory :: "Frame list" where
  "wrist_trajectory =
     (case generateTimeOptimalTrajectory coulomb INITIAL_JOINTS wrist_target of
        Inl err \<Rightarrow> []
      | Inr traj \<Rightarrow> points traj)"

text \<open>
  A move of four joints at once: the base by 0.5 rad, the elbow from -1 to 1 rad, the
  fourth joint by 1 rad and the last joint by -2 rad; and the coefficients of its path.
\<close>

definition sweep_p :: "nat \<Rightarrow> real" where
  "sweep_p i = [0, 0, - 1, 0, 0, 0] ! i"

definition sweep_q :: "nat \<Rightarrow> real" where
  "sweep_q i = [0.5, 0, 1, 1, 0, - 2] ! i"

definition sweep_start :: "JointState list" where
  "sweep_start = map (\<lambda>i. zero_state (Fin (sweep_p i))) [0..<6]"

definition sweep_end :: "JointState list" where
  "sweep_end = map (\<lambda>i. zero_state (Fin (sweep_q i))) [0..<6]"

definition sweep_co :: Coeffs where
  "sweep_co = coefficients (map angle sweep_start)
                (delta (map angle sweep_start) (map angle sweep_end))"

text \<open>
  Friction models whose calls can throw: the one that always returns what a given friction
  model returns, and one that throws at every call.
\<close>

definition returning :: "(nat \<Rightarrow> num \<Rightarrow> num) \<Rightarrow> nat \<Rightarrow> num \<Rightarrow> error + num" where
  "returning fr i v = Inr (fr i v)"

definition broken_friction :: "nat \<Rightarrow> num \<Rightarrow> error + num" where
  "broken_friction i v = Inl FrictionError"

text \<open>
  A friction model that covers joint velocities up to 5 rad/s, where it is the Coulomb
  friction, and throws beyond.
\<close>

definition limited_friction :: "nat \<Rightarrow> num \<Rightarrow> error + num" where
  "limited_friction i v = (if Fin 5 < Math_abs v then Inl FrictionError else Inr (coulomb i v))"









section \<open>Facts about numbers and lists\<close>

lemma minus_Fin [simp]: "Fin a - Fin b = Fin (a - b)"
  by (simp add: minus_num_def)

lemma Math_max_Fin [simp]: "Math_max (Fin a) (Fin b) = Fin (max a b)"
  by (simp add: Math_max_def max_def)

lemma Math_min_Fin [simp]: "Math_min (Fin a) (Fin b) = Fin (min a b)"
  by (simp add: Math_min_def min_def)

lemma finite_num_iff: "finite_num x \<longleftrightarrow> (\<exists>a. x = Fin a)"
  by (cases x) (simp_all add: finite_num_def)

lemma finite_num_Fin [simp]: "finite_num (Fin a)"
  by (simp add: finite_num_def)

lemma num_less_trans: "(x::num) < y \<Longrightarrow> y < z \<Longrightarrow> x < z"
  by (cases x; cases y; cases z) simp_all

lemma num_less_not_ge: "(x::num) < y \<Longrightarrow> \<not> y \<le> x"
  by (cases x; cases y) simp_all

lemma le_Fin_less: "x \<le> Fin r \<Longrightarrow> r < r' \<Longrightarrow> x < Fin r' \<and> x \<le> Fin r'"
  by (cases x) simp_all

lemma map_enumerate_nth:
  "map (\<lambda>(i, x). F i x) (enumerate 0 xs) = map (\<lambda>i. F i (xs ! i)) [0..<length xs]"
  by (rule nth_equalityI) (simp_all add: nth_enumerate_eq)

lemma map_eq_nth: "map f xs = map g ys \<Longrightarrow> i < length xs \<Longrightarrow> f (xs ! i) = g (ys ! i)"
  by (metis length_map nth_map)

lemma hd_upt_map: "0 < n \<Longrightarrow> hd (map f [0..<n]) = f 0"
  by (simp add: hd_map upt_conv_Cons)

lemma last_upt_map: "last (map f [0..<Suc n]) = f n"
  by simp


lemma upt_0_6: "[0..<6] = [0, 1, 2, 3, 4, 5 :: nat]"
  by code_simp

lemma INITIAL_JOINTS_list:
  "INITIAL_JOINTS = map (\<lambda>i. \<lparr>angle = Fin 0, velocity = Fin 0, acceleration = Fin 0, torque = Fin 0\<rparr>)
                      [0, 1, 2, 3, 4, 5 :: nat]"
  by (simp add: INITIAL_JOINTS_def numeral_eq_Suc)

lemma valid_INITIAL_JOINTS: "valid_state INITIAL_JOINTS"
  by (simp add: valid_state_def INITIAL_JOINTS_list)

section \<open>Properties of the dynamics model\<close>

lemma length_calculateGravityTorques [simp]:
  "length (calculateGravityTorques jnts params) = 6"
  by (simp add: calculateGravityTorques_def Let_def)

lemma length_foldl_inertia_step [simp]:
  "length (foldl (inertia_step params qdd) ts is) = length ts"
  by (induction "is" arbitrary: ts) (simp_all add: inertia_step_def Let_def)

lemma length_foldl_centrifugal_step [simp]:
  "length (foldl (centrifugal_step qd) ts is) = length ts"
  by (induction "is" arbitrary: ts) (simp_all add: centrifugal_step_def Let_def)

lemma length_calculateInverseDynamics [simp]:
  "length (calculateInverseDynamics jnts params) = 6"
  by (simp add: calculateInverseDynamics_def Let_def)

text \<open>
  C8. For a six-joint state and any parameter set, the torque that
  \<open>calculateInverseDynamics\<close> returns at index 0 (the base joint) is
  (sum of all link masses) x 0.1 x the acceleration of joint 0: the angles and the
  velocities do not occur in it. The gravity torque at index 0 is 0.
\<close>

theorem base_joint_torque:
  assumes "length jnts = 6"
  shows "calculateInverseDynamics jnts params ! 0
           = (foldl (\<lambda>a b. a + b) (Fin 0) (masses params) * Fin 0.1) * acceleration (jnts ! 0)
         \<and> calculateGravityTorques jnts params ! 0 = Fin 0"
  using assms
  by (auto simp add: calculateInverseDynamics_def calculateGravityTorques_def Let_def elem_def)

theorem base_joint_torque_witness:
  "length (map (\<lambda>j. j\<lparr>angle := Fin 1, velocity := Fin 3, acceleration := Fin 2\<rparr>) INITIAL_JOINTS) = 6
   \<and> calculateInverseDynamics
         (map (\<lambda>j. j\<lparr>angle := Fin 1, velocity := Fin 3, acceleration := Fin 2\<rparr>) INITIAL_JOINTS)
         ROBOT_PARAMS ! 0 = Fin 4.5
   \<and> calculateGravityTorques
         (map (\<lambda>j. j\<lparr>angle := Fin 1, velocity := Fin 3, acceleration := Fin 2\<rparr>) INITIAL_JOINTS)
         ROBOT_PARAMS ! 0 = Fin 0"
  using base_joint_torque
          [of "map (\<lambda>j. j\<lparr>angle := Fin 1, velocity := Fin 3, acceleration := Fin 2\<rparr>) INITIAL_JOINTS"
              ROBOT_PARAMS]
  by (simp add: INITIAL_JOINTS_list ROBOT_PARAMS_def)

section \<open>The linear fallback\<close>

lemma fallback_ok:
  "length endJoints = length startJoints \<Longrightarrow>
   generateLinearFallback startJoints endJoints =
     Inr \<lparr>points = map (fallback_frame startJoints endJoints) [0..<61], duration = Fin 3\<rparr>"
  by (simp add: generateLinearFallback_def)

lemma time_fallback_frame: "time (fallback_frame s e i) = Fin (3 * real i / 60)"
  by (simp add: fallback_frame_def Let_def)

lemma increasing_fallback: "increasing_times (map (fallback_frame s e) [0..<n])"
proof -
  have "sorted_wrt (<) [0..<n]" by simp
  then have "sorted_wrt (\<lambda>i j. time (fallback_frame s e i) < time (fallback_frame s e j)) [0..<n]"
    by (rule sorted_wrt_mono_rel[rotated]) (simp add: time_fallback_frame)
  then show ?thesis by (simp add: increasing_times_def sorted_wrt_map)
qed

lemma fallback_frame_Fin:
  assumes "map angle startJoints = map Fin p" and "map angle endJoints = map Fin q"
    and "length p = length q"
  shows "fallback_frame startJoints endJoints i =
     \<lparr>joints = map (\<lambda>j. \<lparr>angle = Fin (p ! j + (q ! j - p ! j) * (real i / 60)),
                          velocity = Fin 0, acceleration = Fin 0, torque = Fin 0\<rparr>)
                   [0..<length p],
      time = Fin (3 * real i / 60)\<rparr>"
proof -
  have len: "length startJoints = length p" "length endJoints = length p"
    using assms by (metis length_map)+
  have a: "angle (startJoints ! j) = Fin (p ! j)" if "j < length p" for j
    using map_eq_nth[OF assms(1), of j] that len by simp
  have b: "angle (endJoints ! j) = Fin (q ! j)" if "j < length p" for j
    using map_eq_nth[OF assms(2), of j] that len by simp
  show ?thesis
    by (simp add: fallback_frame_def Let_def map_enumerate_nth len a b)
qed

lemma valid_state_angle:
  "valid_state js \<Longrightarrow> i < 6 \<Longrightarrow> \<exists>a. angle (js ! i) = Fin a"
  by (simp add: valid_state_def list_all_length finite_num_iff)

lemma hd_fallback:
  assumes "valid_state startJoints" and "valid_state endJoints"
  shows "joints (fallback_frame startJoints endJoints 0) = map (\<lambda>j. zero_state (angle j)) startJoints"
proof (rule nth_equalityI)
  show "length (joints (fallback_frame startJoints endJoints 0))
        = length (map (\<lambda>j. zero_state (angle j)) startJoints)"
    by (simp add: fallback_frame_def Let_def)
next
  fix i assume "i < length (joints (fallback_frame startJoints endJoints 0))"
  then have i: "i < 6" "i < length startJoints"
    using assms by (simp_all add: fallback_frame_def Let_def valid_state_def)
  obtain a b where "angle (startJoints ! i) = Fin a" "angle (endJoints ! i) = Fin b"
    using valid_state_angle[OF assms(1) i(1)] valid_state_angle[OF assms(2) i(1)] by blast
  then show "joints (fallback_frame startJoints endJoints 0) ! i
             = map (\<lambda>j. zero_state (angle j)) startJoints ! i"
    using i by (simp add: fallback_frame_def Let_def nth_enumerate_eq zero_state_def)
qed

lemma fallback_angles_only:
  assumes "map angle s = map angle s'" and "map angle e = map angle e'"
  shows "generateLinearFallback s e = generateLinearFallback s' e'"
proof -
  have len: "length s = length s'" "length e = length e'"
    using assms by (metis length_map)+
  show ?thesis
  proof (cases "length e < length s")
    case True
    then show ?thesis using len by (simp add: generateLinearFallback_def)
  next
    case False
    have a: "angle (s ! j) = angle (s' ! j)" if "j < length s" for j
      using map_eq_nth[OF assms(1)] that by simp
    have b: "angle (e ! j) = angle (e' ! j)" if "j < length s" for j
      using map_eq_nth[OF assms(2), of j] that False by simp
    have "fallback_frame s e i = fallback_frame s' e' i" for i
      using a b len by (simp add: fallback_frame_def Let_def map_enumerate_nth)
    then show ?thesis using len by (simp add: generateLinearFallback_def)
  qed
qed


section \<open>The distance check\<close>

lemma delta_Fin:
  assumes "length p = length q"
  shows "delta (map Fin p) (map Fin q) = map (\<lambda>i. Fin (q ! i - p ! i)) [0..<length q]"
  using assms by (simp add: delta_def map_enumerate_nth elem_def)

lemma foldl_squares_Fin:
  "foldl (\<lambda>a b. a + b * b) (Fin acc) (map Fin xs) = Fin (acc + (\<Sum>x\<leftarrow>xs. x * x))"
  by (induction xs arbitrary: acc) (simp_all add: add.assoc)

lemma distance_Fin:
  assumes "length p = length q"
  shows "distance (delta (map Fin p) (map Fin q))
           = Fin (sqrt (\<Sum>i\<leftarrow>[0..<length q]. (q ! i - p ! i) * (q ! i - p ! i)))"
proof -
  have "delta (map Fin p) (map Fin q) = map Fin (map (\<lambda>i. q ! i - p ! i) [0..<length q])"
    using assms by (simp add: delta_Fin)
  then have "distance (delta (map Fin p) (map Fin q))
      = Math_sqrt (Fin (0 + (\<Sum>x\<leftarrow>map (\<lambda>i. q ! i - p ! i) [0..<length q]. x * x)))"
    unfolding distance_def by (simp only: foldl_squares_Fin)
  moreover have "0 \<le> (\<Sum>x\<leftarrow>map (\<lambda>i. q ! i - p ! i) [0..<length q]. x * x)"
    by (rule sum_list_nonneg) auto
  ultimately show ?thesis by (simp add: comp_def)
qed


section \<open>The final integration\<close>

lemma ds_Fin: "ds = Fin (1 / 200)"
  by (simp add: ds_def N_GRID_def)

lemma integ_dt_aux:
  "finite_num (Math_max ((if Fin 0.0001 < v then ds / v else Fin 0.01) * PLAYBACK_SPEED_FACTOR)
       (Fin 0.0001))
   \<and> Fin 0.0001 \<le> Math_max ((if Fin 0.0001 < v then ds / v else Fin 0.01) * PLAYBACK_SPEED_FACTOR)
       (Fin 0.0001)"
  by (cases v) (simp_all add: ds_Fin PLAYBACK_SPEED_FACTOR_def)

lemma integ_dt:
  "\<exists>d. 0.0001 \<le> d \<and>
     Math_max ((if Fin 0.0001 < v then ds / v else Fin 0.01) * PLAYBACK_SPEED_FACTOR)
       (Fin 0.0001) = Fin d"
  using integ_dt_aux[of v] by (auto simp add: finite_num_iff)

lemma integ_step_inv:
  assumes "integ_inv f0 st"
  shows "integ_inv f0 (integ_step startq deltaq smooth st k)"
proof -
  obtain pts t sd where st: "st = (pts, t, sd)" by (cases st) auto
  from assms st obtain r where r: "t = Fin r" and ne: "pts \<noteq> []" and h: "hd pts = f0"
    and inc: "increasing_times pts" and le: "\<forall>f \<in> set pts. time f \<le> Fin r"
    by (auto simp add: integ_inv_def)
  define v where "v = (sd + Math_sqrt (Math_max (Fin 0) (sd * sd + Fin 2 * (smooth ! k) * ds))) / Fin 2"
  define dt where "dt = Math_max ((if Fin 0.0001 < v then ds / v else Fin 0.01) * PLAYBACK_SPEED_FACTOR)
       (Fin 0.0001)"
  obtain d where d: "0.0001 \<le> d" "dt = Fin d"
    unfolding dt_def using integ_dt by blast
  have eq: "\<exists>J sn. integ_step startq deltaq smooth st k
              = (pts @ [\<lparr>joints = J, time = t + dt\<rparr>], t + dt, sn)"
    by (simp add: integ_step_def Let_def st dt_def v_def)
  have lt: "\<forall>f \<in> set pts. time f < Fin (r + d) \<and> time f \<le> Fin (r + d)"
    using le d(1) le_Fin_less[where r = r and r' = "r + d"] by auto
  show ?thesis
    using ne h inc lt d eq
    by (auto simp add: integ_inv_def r increasing_times_def sorted_wrt_append)
qed

lemma foldl_integ_inv:
  assumes "integ_inv f0 st"
  shows "integ_inv f0 (foldl (integ_step startq deltaq smooth) st ks)"
  using assms by (induction ks arbitrary: st) (simp_all add: integ_step_inv)

lemma integrate_inv:
  "integ_inv \<lparr>joints = map zero_state startq, time = Fin 0\<rparr> (integrate startq deltaq smooth)"
  unfolding integrate_def Let_def
  by (rule foldl_integ_inv) (simp add: integ_inv_def increasing_times_def)

lemma solve_props:
  "points (solve fr startq deltaq) \<noteq> []
   \<and> hd (points (solve fr startq deltaq)) = \<lparr>joints = map zero_state startq, time = Fin 0\<rparr>
   \<and> increasing_times (points (solve fr startq deltaq))
   \<and> duration (solve fr startq deltaq) = time (last (points (solve fr startq deltaq)))"
  using integrate_inv[of startq deltaq]
  by (simp add: solve_def Let_def integ_inv_def)


section \<open>The planner's contract\<close>

text \<open>
  C2. For valid start and end states the planner returns a trajectory whose timestamps
  increase strictly and whose first sample has timestamp 0, the angles of the start state,
  and zero velocity and acceleration.
\<close>

theorem timestamps_increase:
  assumes "valid_state startJoints" and "valid_state endJoints"
  shows "\<exists>traj. generateTimeOptimalTrajectory fr startJoints endJoints = Inr traj
           \<and> increasing_times (points traj)
           \<and> points traj \<noteq> []
           \<and> time (hd (points traj)) = Fin 0
           \<and> joints (hd (points traj))
               = map (\<lambda>j. \<lparr>angle = angle j, velocity = Fin 0, acceleration = Fin 0,
                            torque = Fin 0\<rparr>) startJoints"
proof -
  have len: "length endJoints = length startJoints"
    using assms by (simp add: valid_state_def)
  have hd0: "hd (map (fallback_frame startJoints endJoints) [0..<61])
             = fallback_frame startJoints endJoints 0"
    by (rule hd_upt_map) simp
  have fb: "\<exists>traj. generateLinearFallback startJoints endJoints = Inr traj
           \<and> increasing_times (points traj)
           \<and> points traj \<noteq> []
           \<and> time (hd (points traj)) = Fin 0
           \<and> joints (hd (points traj)) = map (\<lambda>j. zero_state (angle j)) startJoints"
    using hd_fallback[OF assms]
    by (simp add: fallback_ok[OF len] increasing_fallback hd0 time_fallback_frame del: upt_Suc)
  have sv: "increasing_times (points (solve fr (map angle startJoints) dq))
           \<and> points (solve fr (map angle startJoints) dq) \<noteq> []
           \<and> time (hd (points (solve fr (map angle startJoints) dq))) = Fin 0
           \<and> joints (hd (points (solve fr (map angle startJoints) dq)))
                = map (\<lambda>j. zero_state (angle j)) startJoints" for dq
    using solve_props[of fr "map angle startJoints" dq] by (simp add: comp_def)
  show ?thesis
    using fb sv
    by (auto simp add: generateTimeOptimalTrajectory_def try_body_def Let_def zero_state_def
        split: sum.splits)
qed

theorem timestamps_increase_witness:
  "valid_state INITIAL_JOINTS
   \<and> (\<exists>traj. generateTimeOptimalTrajectory frictionless INITIAL_JOINTS INITIAL_JOINTS = Inr traj
          \<and> increasing_times (points traj) \<and> points traj \<noteq> []
          \<and> time (hd (points traj)) = Fin 0
          \<and> joints (hd (points traj)) = INITIAL_JOINTS)"
  using valid_INITIAL_JOINTS
    timestamps_increase[OF valid_INITIAL_JOINTS valid_INITIAL_JOINTS, where fr = frictionless]
  by (simp add: INITIAL_JOINTS_list)

text \<open>
  C3. When the Euclidean norm of the difference of the end and start angles is below
  0.001, the planner returns the linear fallback: 61 samples, sample \<open>i\<close> at time
  \<open>3 i / 60\<close> with the angles \<open>start + (end - start) i / 60\<close> and zero velocity,
  acceleration and torque, and the duration 3.
\<close>

theorem near_zero_fallback:
  assumes "map angle startJoints = map Fin p" and "map angle endJoints = map Fin q"
    and "length p = 6" and "length q = 6"
    and "sqrt (\<Sum>i\<leftarrow>[0..<6]. (q ! i - p ! i) * (q ! i - p ! i)) < 0.001"
  shows "generateTimeOptimalTrajectory fr startJoints endJoints
           = generateLinearFallback startJoints endJoints
       \<and> (\<exists>traj. generateLinearFallback startJoints endJoints = Inr traj
             \<and> length (points traj) = 61 \<and> duration traj = Fin 3
             \<and> (\<forall>i<61. time (points traj ! i) = Fin (3 * real i / 60)
                    \<and> joints (points traj ! i)
                        = map (\<lambda>j. \<lparr>angle = Fin (p ! j + (q ! j - p ! j) * (real i / 60)),
                                     velocity = Fin 0, acceleration = Fin 0, torque = Fin 0\<rparr>)
                            [0..<6]))"
proof -
  have len: "length startJoints = 6" "length endJoints = 6"
    using assms by (metis length_map)+
  have d: "distance (delta (map angle startJoints) (map angle endJoints)) < Fin 0.001"
    using assms distance_Fin[of p q] by simp
  have g: "generateTimeOptimalTrajectory fr startJoints endJoints
           = generateLinearFallback startJoints endJoints"
    using d by (simp add: generateTimeOptimalTrajectory_def try_body_def Let_def split: sum.splits)
  have f: "fallback_frame startJoints endJoints i =
     \<lparr>joints = map (\<lambda>j. \<lparr>angle = Fin (p ! j + (q ! j - p ! j) * (real i / 60)),
                          velocity = Fin 0, acceleration = Fin 0, torque = Fin 0\<rparr>)
                   [0..<6],
      time = Fin (3 * real i / 60)\<rparr>" for i
    using fallback_frame_Fin[OF assms(1,2), of i] assms(3,4) by simp
  show ?thesis
    using g len by (simp add: fallback_ok f del: upt_Suc)
qed

theorem near_zero_fallback_witness:
  "sqrt (\<Sum>i\<leftarrow>[0..<6]. (replicate 6 0 ! i - replicate 6 0 ! i) * (replicate 6 0 ! i - replicate 6 0 ! i))
      < (0.001 :: real)
   \<and> generateTimeOptimalTrajectory frictionless INITIAL_JOINTS INITIAL_JOINTS
           = generateLinearFallback INITIAL_JOINTS INITIAL_JOINTS
   \<and> (\<exists>traj. generateLinearFallback INITIAL_JOINTS INITIAL_JOINTS = Inr traj
          \<and> length (points traj) = 61 \<and> duration traj = Fin 3
          \<and> time (points traj ! 60) = Fin 3
          \<and> joints (points traj ! 60) = INITIAL_JOINTS)"
proof -
  have a: "map angle INITIAL_JOINTS = map Fin (replicate 6 0)"
    by (simp add: INITIAL_JOINTS_def)
  have n: "sqrt (\<Sum>i\<leftarrow>[0..<6]. (replicate 6 0 ! i - replicate 6 0 ! i) * (replicate 6 0 ! i - replicate 6 0 ! i))
      < (0.001 :: real)"
    by simp
  from near_zero_fallback[OF a a _ _ n, where fr = frictionless]
  obtain traj where t: "generateTimeOptimalTrajectory frictionless INITIAL_JOINTS INITIAL_JOINTS
           = generateLinearFallback INITIAL_JOINTS INITIAL_JOINTS"
    "generateLinearFallback INITIAL_JOINTS INITIAL_JOINTS = Inr traj"
    "length (points traj) = 61" "duration traj = Fin 3"
    "\<forall>i<61. time (points traj ! i) = Fin (3 * real i / 60)
        \<and> joints (points traj ! i)
            = map (\<lambda>j. \<lparr>angle = Fin (replicate 6 0 ! j + (replicate 6 0 ! j - replicate 6 0 ! j) * (real i / 60)),
                         velocity = Fin 0, acceleration = Fin 0, torque = Fin 0\<rparr>) [0..<6]"
    by auto
  from t(5) have "time (points traj ! 60) = Fin 3 \<and> joints (points traj ! 60) = INITIAL_JOINTS"
    by (simp add: INITIAL_JOINTS_list upt_0_6)
  with n t show ?thesis by simp
qed

text \<open>
  C4. The planner is a function of its arguments alone: it reads neither the clock nor the
  random source, which only the controller uses. Of its arguments it reads the joint
  angles only. Two invocations whose start states have the same angles and whose end states
  have the same angles, in particular two invocations on identical states, return the same
  samples and the same duration.
\<close>

theorem planner_deterministic:
  assumes "map angle startJoints = map angle startJoints'"
    and "map angle endJoints = map angle endJoints'"
  shows "generateTimeOptimalTrajectory fr startJoints endJoints
           = generateTimeOptimalTrajectory fr startJoints' endJoints'"
  using assms fallback_angles_only[OF assms]
  by (simp add: generateTimeOptimalTrajectory_def try_body_def Let_def split: sum.splits)

theorem planner_deterministic_witness:
  "map angle INITIAL_JOINTS = map angle (map (\<lambda>j. j\<lparr>velocity := Fin 1\<rparr>) INITIAL_JOINTS)
   \<and> generateTimeOptimalTrajectory frictionless INITIAL_JOINTS INITIAL_JOINTS
       = generateTimeOptimalTrajectory frictionless
           (map (\<lambda>j. j\<lparr>velocity := Fin 1\<rparr>) INITIAL_JOINTS) INITIAL_JOINTS"
proof -
  have a: "map angle INITIAL_JOINTS = map angle (map (\<lambda>j. j\<lparr>velocity := Fin 1\<rparr>) INITIAL_JOINTS)"
    by (simp add: comp_def)
  show ?thesis
    using a planner_deterministic[OF a refl, where fr = frictionless] by simp
qed

text \<open>
  C10. Whenever the planner returns a trajectory, on the solver path and on the fallback
  path alike, the duration it returns is the timestamp of the last sample. (It returns one
  unless the end state has fewer joints than the start state.)
\<close>

theorem duration_is_last_time:
  "case generateTimeOptimalTrajectory fr startJoints endJoints of
     Inl err \<Rightarrow> length endJoints < length startJoints
   | Inr traj \<Rightarrow> points traj \<noteq> [] \<and> duration traj = time (last (points traj))"
proof -
  have fb: "case generateLinearFallback startJoints endJoints of
     Inl err \<Rightarrow> length endJoints < length startJoints
   | Inr traj \<Rightarrow> points traj \<noteq> [] \<and> duration traj = time (last (points traj))"
  proof -
    have "last (map (fallback_frame startJoints endJoints) [0..<Suc 60]) = fallback_frame startJoints endJoints 60"
      by (rule last_upt_map)
    then show ?thesis
      by (simp add: generateLinearFallback_def time_fallback_frame del: upt_Suc last_map)
  qed
  show ?thesis
    using fb solve_props[of fr "map angle startJoints"]
    by (auto simp add: generateTimeOptimalTrajectory_def try_body_def Let_def split: sum.splits)
qed

theorem duration_is_last_time_witness:
  "\<exists>traj. generateTimeOptimalTrajectory frictionless INITIAL_JOINTS INITIAL_JOINTS = Inr traj
      \<and> points traj \<noteq> [] \<and> duration traj = time (last (points traj))"
  using duration_is_last_time[where fr = frictionless and startJoints = INITIAL_JOINTS and endJoints = INITIAL_JOINTS]
  by (auto split: sum.splits)

section \<open>The playback controller\<close>

lemma findIndex_None: "findIndex p xs = None \<longleftrightarrow> (\<forall>x \<in> set xs. \<not> p x)"
  by (simp add: findIndex_def)

lemma findIndex_Some:
  assumes "findIndex p xs = Some i"
  shows "i < length xs \<and> p (xs ! i) \<and> (\<forall>j<i. \<not> p (xs ! j))"
proof -
  have i: "i = length (takeWhile (\<lambda>x. \<not> p x) xs)" and ex: "\<exists>x \<in> set xs. p x"
    using assms by (auto simp add: findIndex_def split: if_splits)
  have lt: "i < length xs"
  proof (rule ccontr)
    assume "\<not> i < length xs"
    then have "length (takeWhile (\<lambda>x. \<not> p x) xs) = length xs"
      using i length_takeWhile_le[of "\<lambda>x. \<not> p x" xs] by simp
    then have "takeWhile (\<lambda>x. \<not> p x) xs = xs"
      by (metis takeWhile_eq_take take_all order_refl)
    then have "\<forall>x \<in> set xs. \<not> p x"
      by (simp add: takeWhile_eq_all_conv)
    with ex show False by blast
  qed
  have "p (xs ! i)"
    using nth_length_takeWhile[of "\<lambda>x. \<not> p x" xs] lt i by simp
  moreover have "\<not> p (xs ! j)" if "j < i" for j
  proof -
    have "takeWhile (\<lambda>x. \<not> p x) xs ! j \<in> set (takeWhile (\<lambda>x. \<not> p x) xs)"
      using that i by simp
    then show ?thesis
      using takeWhile_nth[of j "\<lambda>x. \<not> p x" xs] that i set_takeWhileD by fastforce
  qed
  ultimately show ?thesis using lt by blast
qed

lemma increasing_times_last:
  assumes "increasing_times fs" and "f \<in> set fs"
  shows "f = last fs \<or> time f < time (last fs)"
proof (cases fs rule: rev_cases)
  case Nil
  then show ?thesis using assms by simp
next
  case (snoc ys l)
  then show ?thesis
    using assms by (auto simp add: increasing_times_def sorted_wrt_append)
qed

lemma past_the_end:
  assumes "increasing_times traj" and "time (last traj) < moveTime"
  shows "findIndex (\<lambda>frame. moveTime \<le> time frame) traj = None"
proof -
  have "\<not> moveTime \<le> time f" if "f \<in> set traj" for f
  proof -
    have "time f < moveTime"
      using increasing_times_last[OF assms(1) that] assms(2) num_less_trans by auto
    then show ?thesis by (rule num_less_not_ge)
  qed
  then show ?thesis by (simp add: findIndex_None)
qed

lemma physics_update_keeps:
  "map angle (physics_update fr js) = map angle js
   \<and> map velocity (physics_update fr js) = map velocity js
   \<and> map acceleration (physics_update fr js) = map acceleration js"
  by (auto simp add: physics_update_def Let_def intro!: nth_equalityI simp: nth_enumerate_eq)

lemma loopCallback_moving:
  assumes "isPlayingRef st" and "dwellStartTimeRef st = None" and "trajectoryRef st \<noteq> []"
  shows "\<exists>st1. dwellStartTimeRef st1 = None \<and>
     loopCallback fr random now st =
       (case findIndex (\<lambda>frame. moveTime_of now st \<le> time frame) (trajectoryRef st) of
          Some frameIndex \<Rightarrow> emit fr st1 (joints (trajectoryRef st ! frameIndex))
        | None \<Rightarrow> emit fr (st1\<lparr>dwellStartTimeRef := Some now\<rparr>) (joints (last (trajectoryRef st))))"
proof (cases "trajStartElapsedRef st < Fin 0")
  case True
  then show ?thesis
    using assms
    by (intro exI[of _ "st\<lparr>trajStartElapsedRef := (now - startTimeRef st) / Fin 1000,
                            isDwelling := False\<rparr>"])
       (simp add: loopCallback_def Let_def moveTime_of_def cong: option.case_cong)
next
  case False
  then show ?thesis
    using assms
    by (intro exI[of _ "st\<lparr>isDwelling := False\<rparr>"])
       (simp add: loopCallback_def Let_def moveTime_of_def cong: option.case_cong)
qed


text \<open>With no trajectory at hand a tick in the Moving state plans a move and emits nothing.\<close>

lemma moving_state_empty:
  assumes "isPlayingRef st" and "dwellStartTimeRef st = None" and "trajectoryRef st = []"
  shows "case loopCallback fr random now st of
           Inl err \<Rightarrow> True
         | Inr (st', out) \<Rightarrow> out = None"
  using assms by (simp add: loopCallback_def Let_def split: sum.splits)

text \<open>
  C9, with the final sample as the trajectory holds it. A tick of the controller in its
  Moving state (playing, no dwell started, a trajectory with increasing timestamps at hand)
  hands over one frame of the trajectory, with its angles, velocities and accelerations
  unchanged and the torques recomputed. That frame is the first frame whose timestamp is at
  least the elapsed move time, and then no dwell starts; or no frame has such a timestamp, it
  is the last frame, and the dwell-start time is recorded as the clock reading of the tick.
  When the elapsed move time exceeds the timestamp of the last frame, it is the last frame
  and the dwell starts.
\<close>

theorem moving_state:
  assumes "isPlayingRef st" and "dwellStartTimeRef st = None"
    and "trajectoryRef st = traj" and "traj \<noteq> []" and "increasing_times traj"
  shows "\<exists>st' frame.
           loopCallback fr random now st = Inr (st', Some (physics_update fr (joints frame)))
           \<and> map angle (physics_update fr (joints frame)) = map angle (joints frame)
           \<and> map velocity (physics_update fr (joints frame)) = map velocity (joints frame)
           \<and> map acceleration (physics_update fr (joints frame)) = map acceleration (joints frame)
           \<and> ((frame = last traj \<and> dwellStartTimeRef st' = Some now
                 \<and> (\<forall>f \<in> set traj. \<not> moveTime_of now st \<le> time f))
              \<or> (\<exists>i<length traj. frame = traj ! i \<and> dwellStartTimeRef st' = None
                    \<and> moveTime_of now st \<le> time (traj ! i)
                    \<and> (\<forall>j<i. \<not> moveTime_of now st \<le> time (traj ! j))))
           \<and> (time (last traj) < moveTime_of now st
                \<longrightarrow> frame = last traj \<and> dwellStartTimeRef st' = Some now)"
proof -
  obtain st1 where st1: "dwellStartTimeRef st1 = None"
    and lc: "loopCallback fr random now st =
       (case findIndex (\<lambda>frame. moveTime_of now st \<le> time frame) traj of
          Some frameIndex \<Rightarrow> emit fr st1 (joints (traj ! frameIndex))
        | None \<Rightarrow> emit fr (st1\<lparr>dwellStartTimeRef := Some now\<rparr>) (joints (last traj)))"
    using loopCallback_moving[of st fr random now] assms by auto
  show ?thesis
  proof (cases "findIndex (\<lambda>frame. moveTime_of now st \<le> time frame) traj")
    case None
    then have "\<forall>f \<in> set traj. \<not> moveTime_of now st \<le> time f"
      by (simp add: findIndex_None)
    then show ?thesis
      using lc None physics_update_keeps[of fr "joints (last traj)"]
      by (simp add: emit_def Let_def)
  next
    case (Some i)
    have nl: "\<not> time (last traj) < moveTime_of now st"
      using past_the_end[OF assms(5)] Some by auto
    show ?thesis
      using lc st1 Some findIndex_Some[OF Some] nl physics_update_keeps[of fr "joints (traj ! i)"]
      by (simp add: emit_def Let_def) blast
  qed
qed

lemma three_frames_props:
  "three_frames \<noteq> []" "increasing_times three_frames" "length three_frames = 3"
  "time (three_frames ! 0) = Fin 0" "time (three_frames ! 1) = Fin 1"
  "time (three_frames ! 2) = Fin 2" "last three_frames = three_frames ! 2"
  by (simp_all add: three_frames_def increasing_times_def)

theorem moving_state_witness:
  "isPlayingRef (playing_controller three_frames)
   \<and> dwellStartTimeRef (playing_controller three_frames) = None
   \<and> increasing_times three_frames
   \<and> moveTime_of (Fin 500) (playing_controller three_frames) = Fin 0.5
   \<and> moveTime_of (Fin 5000) (playing_controller three_frames) = Fin 5
   \<and> (\<exists>st'. loopCallback frictionless (\<lambda>n. Fin 0) (Fin 500) (playing_controller three_frames)
               = Inr (st', Some (physics_update frictionless (joints (three_frames ! 1))))
          \<and> dwellStartTimeRef st' = None)
   \<and> (\<exists>st'. loopCallback frictionless (\<lambda>n. Fin 0) (Fin 5000) (playing_controller three_frames)
               = Inr (st', Some (physics_update frictionless (joints (last three_frames))))
          \<and> dwellStartTimeRef st' = Some (Fin 5000))
   \<and> map velocity (physics_update frictionless (joints (last three_frames))) = replicate 6 (Fin 5)
   \<and> map acceleration (physics_update frictionless (joints (last three_frames)))
        = replicate 6 (Fin 7)"
proof -
  define pc where "pc = playing_controller three_frames"
  have h: "isPlayingRef pc" "dwellStartTimeRef pc = None"
    "trajectoryRef pc = three_frames" "three_frames \<noteq> []" "increasing_times three_frames"
    by (simp_all add: pc_def playing_controller_def three_frames_props)
  have m: "moveTime_of (Fin 500) pc = Fin 0.5" "moveTime_of (Fin 5000) pc = Fin 5"
    by (simp_all add: pc_def playing_controller_def moveTime_of_def)
  have late: "time (last three_frames) < moveTime_of (Fin 5000) pc"
    by (simp add: m three_frames_props)
  have b: "\<exists>st'. loopCallback frictionless (\<lambda>n. Fin 0) (Fin 5000) pc
               = Inr (st', Some (physics_update frictionless (joints (last three_frames))))
          \<and> dwellStartTimeRef st' = Some (Fin 5000)"
    and v: "map velocity (physics_update frictionless (joints (last three_frames)))
              = map velocity (joints (last three_frames))"
    and c: "map acceleration (physics_update frictionless (joints (last three_frames)))
              = map acceleration (joints (last three_frames))"
    using late moving_state[OF h, where fr = frictionless and random = "\<lambda>n. Fin 0" and now = "Fin 5000"]
    by auto
  obtain st' frame where
    l: "loopCallback frictionless (\<lambda>n. Fin 0) (Fin 500) pc
          = Inr (st', Some (physics_update frictionless (joints frame)))"
    and d: "(frame = last three_frames \<and> dwellStartTimeRef st' = Some (Fin 500)
                 \<and> (\<forall>f \<in> set three_frames. \<not> moveTime_of (Fin 500) pc \<le> time f))
              \<or> (\<exists>i<length three_frames. frame = three_frames ! i \<and> dwellStartTimeRef st' = None
                    \<and> moveTime_of (Fin 500) pc \<le> time (three_frames ! i)
                    \<and> (\<forall>j<i. \<not> moveTime_of (Fin 500) pc \<le> time (three_frames ! j)))"
    using moving_state[OF h, where fr = frictionless and random = "\<lambda>n. Fin 0" and now = "Fin 500"]
    by blast
  have "three_frames ! 1 \<in> set three_frames"
    by (simp add: three_frames_props)
  then have n1: "\<not> (\<forall>f \<in> set three_frames. \<not> moveTime_of (Fin 500) pc \<le> time f)"
    using three_frames_props(5) m(1) by force
  then obtain i where i: "i < 3" "frame = three_frames ! i" "dwellStartTimeRef st' = None"
    "moveTime_of (Fin 500) pc \<le> time (three_frames ! i)"
    "\<forall>j<i. \<not> moveTime_of (Fin 500) pc \<le> time (three_frames ! j)"
    using d by (auto simp add: three_frames_props)
  have "i \<noteq> 0"
  proof
    assume "i = 0"
    then show False using i(4) three_frames_props(4) by (simp add: m)
  qed
  moreover have "\<not> 1 < i"
  proof
    assume "1 < i"
    then have "\<not> moveTime_of (Fin 500) pc \<le> time (three_frames ! 1)" using i(5) by blast
    then show False using three_frames_props(5) by (simp add: m)
  qed
  ultimately have "i = 1" by simp
  then have a: "\<exists>st'. loopCallback frictionless (\<lambda>n. Fin 0) (Fin 500) pc
               = Inr (st', Some (physics_update frictionless (joints (three_frames ! 1))))
          \<and> dwellStartTimeRef st' = None"
    using l i by auto
  have vl: "map velocity (joints (last three_frames)) = replicate 6 (Fin 5)"
    "map acceleration (joints (last three_frames)) = replicate 6 (Fin 7)"
    by (simp_all add: three_frames_def INITIAL_JOINTS_def)
  show ?thesis
    using h m a b v c vl unfolding pc_def by simp
qed

text \<open>
  A tick in the Dwelling state, before the dwell time is over, hands over the joints that
  the previous tick left, with velocity and acceleration set to 0: from here on the robot
  is held at rest.
\<close>

lemma dwelling_state:
  assumes "isPlayingRef st" and "dwellStartTimeRef st = Some dwellStart"
    and "\<not> DWELL_TIME < (now - dwellStart) / Fin 1000"
  shows "\<exists>st' js. loopCallback fr random now st = Inr (st', Some js)
           \<and> dwellStartTimeRef st' = Some dwellStart
           \<and> map angle js = map angle (jointsRef st)
           \<and> (\<forall>j \<in> set js. velocity j = Fin 0 \<and> acceleration j = Fin 0)"
proof -
  define held where "held = map (\<lambda>j. j\<lparr>velocity := Fin 0, acceleration := Fin 0\<rparr>) (jointsRef st)"
  have k: "map angle (physics_update fr held) = map angle held"
    "map velocity (physics_update fr held) = map velocity held"
    "map acceleration (physics_update fr held) = map acceleration held"
    using physics_update_keeps[of fr held] by simp_all
  have z: "\<forall>j \<in> set (physics_update fr held). velocity j = Fin 0 \<and> acceleration j = Fin 0"
  proof
    fix j assume "j \<in> set (physics_update fr held)"
    then have "velocity j \<in> set (map velocity held)" "acceleration j \<in> set (map acceleration held)"
      using k(2,3) by (metis image_eqI set_map)+
    then show "velocity j = Fin 0 \<and> acceleration j = Fin 0"
      by (auto simp add: held_def)
  qed
  have a: "map angle held = map angle (jointsRef st)"
    by (simp add: held_def comp_def)
  show ?thesis
    using assms z k(1) a
    by (simp add: loopCallback_def Let_def emit_def held_def[symmetric])
qed

section \<open>The coefficients of the path\<close>

lemma fins_list: "fins p = [Fin (p 0), Fin (p 1), Fin (p 2), Fin (p 3), Fin (p 4), Fin (p 5)]"
  by (simp add: fins_def upt_0_6)


lemma length_fins [simp]: "length (fins p) = 6"
  by (simp add: fins_def)

lemma q_curr_fins:
  "q_curr (fins p) (fins d) k = fins (\<lambda>i. p i + real k / 200 * d i)"
  by (simp add: q_curr_def fins_list Let_def elem_def N_GRID_def)

lemma gravity_list:
  "calculateGravityTorques jnts params =
     (let q = map angle jnts
      in [Fin 0,
          Fin 0 + (elem (masses params) 1 + elem (masses params) 2 + elem (masses params) 3)
                    * G * elem (com params) 1 * Math_cos (elem q 1),
          Fin 0 + (elem (masses params) 2 + elem (masses params) 3)
                    * G * elem (com params) 2 * Math_cos (elem q 1 + elem q 2),
          Fin 0,
          Fin 0 + elem (masses params) 4 * G * elem (com params) 4
                    * Math_cos (elem q 1 + elem q 2 + elem q 4),
          Fin 0])"
  by (simp add: calculateGravityTorques_def Let_def numeral_eq_Suc)

lemma C_coeff_list:
  "C_coeff (fins p) (fins d) k =
     [Fin 0,
      Fin (16 * 9.81 * 0.13 * cos (p 1 + real k / 200 * d 1)),
      Fin (8 * 9.81 * 0.15 * cos (p 1 + real k / 200 * d 1 + (p 2 + real k / 200 * d 2))),
      Fin 0,
      Fin (1 * 9.81 * 0.02 * cos (p 1 + real k / 200 * d 1 + (p 2 + real k / 200 * d 2) + (p 4 + real k / 200 * d 4))),
      Fin 0]"
  unfolding C_coeff_def q_curr_fins gravity_list
  by (simp add: Let_def fins_list zero_state_def ROBOT_PARAMS_def elem_def G_def)

lemma inverse_dynamics_list:
  "calculateInverseDynamics jnts params =
     (let g = calculateGravityTorques jnts params;
          qd = map velocity jnts; qdd = map acceleration jnts
      in [(foldl (\<lambda>a b. a + b) (Fin 0) (masses params) * Fin 0.1) * elem qdd 0,
          id_entry params g qd qdd 1, id_entry params g qd qdd 2, id_entry params g qd qdd 3,
          id_entry params g qd qdd 4, id_entry params g qd qdd 5])"
proof -
  obtain g0 g1 g2 g3 g4 g5 where g: "calculateGravityTorques jnts params = [g0, g1, g2, g3, g4, g5]"
    by (simp add: gravity_list Let_def)
  show ?thesis
    by (simp add: calculateInverseDynamics_def Let_def g upt_0_6 inertia_step_def
        centrifugal_step_def id_entry_def)
qed

lemma B_coeff_list:
  "B_coeff (fins p) (fins d) k =
     [Fin 0, Fin (0.1 * d 1 * \<bar>d 1\<bar>), Fin (0.1 * d 2 * \<bar>d 2\<bar>), Fin (0.1 * d 3 * \<bar>d 3\<bar>),
      Fin (0.1 * d 4 * \<bar>d 4\<bar>), Fin (0.1 * d 5 * \<bar>d 5\<bar>)]"
  unfolding B_coeff_def inverse_dynamics_list C_coeff_list q_curr_fins gravity_list
  by (simp add: Let_def fins_list zero_state_def id_entry_def Math_abs_def
      ROBOT_PARAMS_def elem_def G_def)

lemma A_coeff_list:
  "A_coeff (fins p) (fins d) k =
     [Fin (2.25 * d 0), Fin ((8 * (0.27 * 0.27) + 2) * d 1), Fin ((6 * (0.3 * 0.3) + 1.5) * d 2),
      Fin ((2 * (0.1 * 0.1) + 1) * d 3), Fin ((1 * (0.05 * 0.05) + 0.5) * d 4),
      Fin (0.5 * (0.05 * 0.05) * d 5)]"
  unfolding A_coeff_def inverse_dynamics_list C_coeff_list q_curr_fins gravity_list
  by (simp add: Let_def fins_list zero_state_def id_entry_def Math_abs_def
      ROBOT_PARAMS_def elem_def G_def)

lemma A_coeff_fins: "A_coeff (fins p) (fins d) k = fins (\<lambda>i. a_gain i * d i)"
  unfolding A_coeff_list by (simp add: fins_list a_gain_def)

lemma B_coeff_fins:
  "B_coeff (fins p) (fins d) k = fins (\<lambda>i. if i = 0 then 0 else 0.1 * d i * \<bar>d i\<bar>)"
  unfolding B_coeff_list by (simp add: fins_list)

lemma C_coeff_fins: "C_coeff (fins p) (fins d) k = fins (gravity_c p d k)"
  unfolding C_coeff_list by (simp add: fins_list gravity_c_def)

section \<open>The static velocity limit of a joint\<close>

lemma static_limit_meaning:
  assumes "0 \<le> T"
  shows "case static_limit b c T of
           Infeasible \<Rightarrow> (\<forall>x. \<not> static_ok b c T x)
         | Unbounded \<Rightarrow> (\<forall>x\<ge>0. static_ok b c T x)
         | AtMost m \<Rightarrow> static_ok b c T m \<and> (\<forall>x. static_ok b c T x \<longrightarrow> x \<le> m)"
proof -
  consider "0 < b" | "b < 0" | "b = 0" by linarith
  then show ?thesis
  proof cases
    case 1
    have up: "b * x + c \<le> T \<longleftrightarrow> x \<le> (T - c) / b" for x
    proof -
      have "b * x \<le> T - c \<longleftrightarrow> x \<le> (T - c) / b"
        using 1 by (simp add: pos_le_divide_eq mult.commute)
      then show ?thesis by linarith
    qed
    have nn: "0 \<le> b * x" if "0 \<le> x" for x using 1 that by simp
    show ?thesis
    proof (cases "T < c")
      case True
      have "\<not> static_ok b c T x" for x
        using nn[of x] True by (auto simp add: static_ok_def)
      then show ?thesis using 1 True by (simp add: static_limit_def)
    next
      case False
      have m: "b * ((T - c) / b) + c = T" using 1 by simp
      have "0 \<le> (T - c) / b" using 1 False by simp
      then have "static_ok b c T ((T - c) / b)"
        using assms m by (simp add: static_ok_def)
      moreover have "x \<le> (T - c) / b" if "static_ok b c T x" for x
        using that up[of x] by (simp add: static_ok_def)
      ultimately show ?thesis using 1 False by (simp add: static_limit_def)
    qed
  next
    case 2
    have lo: "- T \<le> b * x + c \<longleftrightarrow> x \<le> (- T - c) / b" for x
    proof -
      have "- T - c \<le> b * x \<longleftrightarrow> x \<le> (- T - c) / b"
        using 2 by (simp add: neg_divide_le_eq neg_le_divide_eq mult.commute)
      then show ?thesis by linarith
    qed
    have np: "b * x \<le> 0" if "0 \<le> x" for x using 2 that by (simp add: mult_nonpos_nonneg)
    show ?thesis
    proof (cases "c < - T")
      case True
      have "\<not> static_ok b c T x" for x
        using np[of x] True by (auto simp add: static_ok_def)
      then show ?thesis using 2 True by (simp add: static_limit_def)
    next
      case False
      have m: "b * ((- T - c) / b) + c = - T" using 2 by simp
      have "0 \<le> (- T - c) / b" using 2 False by (simp add: divide_nonpos_neg)
      then have "static_ok b c T ((- T - c) / b)"
        using assms m by (simp add: static_ok_def)
      moreover have "x \<le> (- T - c) / b" if "static_ok b c T x" for x
        using that lo[of x] by (simp add: static_ok_def)
      ultimately show ?thesis using 2 False by (simp add: static_limit_def)
    qed
  next
    case 3
    then show ?thesis by (auto simp add: static_limit_def static_ok_def)
  qed
qed

lemma nonneg_limit_value:
  "0 \<le> T \<Longrightarrow> nonneg (limit_value (static_limit b c T))"
  by (simp add: static_limit_def nonneg_def divide_nonpos_neg)

lemma Math_min_nonneg: "nonneg x \<Longrightarrow> nonneg y \<Longrightarrow> nonneg (Math_min x y)"
  by (cases x; cases y) (simp_all add: nonneg_def Math_min_def)

lemma Math_min_assoc:
  "Math_min (Math_min x y) z = Math_min x (Math_min y z)"
  by (cases x; cases y; cases z) (simp_all add: Math_min_def)

lemma Math_min_PInf: "nonneg x \<Longrightarrow> Math_min x PInf = x"
  by (cases x) (simp_all add: nonneg_def Math_min_def)

lemma Math_min_zero: "nonneg x \<Longrightarrow> Math_min x (Fin 0) = Fin 0"
  by (cases x) (auto simp add: nonneg_def Math_min_def)

lemma mvc_joint_limit:
  assumes "nonneg acc" and "elem B i = Fin b" and "elem C i = Fin c" and "elem MAX_TORQUES i = Fin T"
    and "b = 0 \<longrightarrow> - T \<le> c \<and> c \<le> T"
  shows "mvc_joint B C acc i = Math_min acc (limit_value (static_limit b c T))"
  using assms
  by (auto simp add: mvc_joint_def Let_def static_limit_def Math_min_zero Math_min_PInf)

lemma foldl_mvc_joint:
  assumes "nonneg acc"
    and "\<forall>i \<in> set is. elem B i = Fin (b i) \<and> elem C i = Fin (c i) \<and> elem MAX_TORQUES i = Fin (T i)
           \<and> 0 \<le> T i \<and> (b i = 0 \<longrightarrow> - T i \<le> c i \<and> c i \<le> T i)"
  shows "foldl (mvc_joint B C) acc is
           = Math_min acc (foldr (\<lambda>m least. Math_min (limit_value m) least)
                             (map (\<lambda>i. static_limit (b i) (c i) (T i)) is) PInf)"
  using assms
proof (induction "is" arbitrary: acc)
  case Nil
  then show ?case by (simp add: Math_min_PInf)
next
  case (Cons i "is")
  have s: "mvc_joint B C acc i = Math_min acc (limit_value (static_limit (b i) (c i) (T i)))"
    using Cons.prems by (intro mvc_joint_limit) auto
  have n: "nonneg (Math_min acc (limit_value (static_limit (b i) (c i) (T i))))"
    using Cons.prems by (intro Math_min_nonneg nonneg_limit_value) auto
  show ?case
    using Cons.IH[OF n] Cons.prems(2) by (simp add: s Math_min_assoc)
qed

section \<open>The maximum velocity curve\<close>

lemma valid_state_fins:
  assumes "valid_state js"
  shows "\<exists>p. map angle js = fins p"
proof -
  have "map angle js = fins (\<lambda>i. real_of (angle (js ! i)))"
  proof (rule nth_equalityI)
    show "length (map angle js) = length (fins (\<lambda>i. real_of (angle (js ! i))))"
      using assms by (simp add: valid_state_def)
  next
    fix i assume "i < length (map angle js)"
    then have i: "i < 6" using assms by (simp add: valid_state_def)
    then obtain a where "angle (js ! i) = Fin a"
      using valid_state_angle[OF assms] by blast
    then show "map angle js ! i = fins (\<lambda>i. real_of (angle (js ! i))) ! i"
      using i assms by (simp add: fins_def valid_state_def real_of_def del: upt_Suc)
  qed
  then show ?thesis by blast
qed

lemma delta_fins: "delta (fins p) (fins q) = fins (\<lambda>i. q i - p i)"
  by (simp add: delta_def fins_list elem_def)

lemma cos_bound:
  assumes "0 \<le> (a::real)" and "a \<le> T"
  shows "- T \<le> a * cos x \<and> a * cos x \<le> T"
proof -
  have "a * cos x \<le> a * 1"
    by (rule mult_left_mono) (simp_all add: assms)
  moreover have "a * (- 1) \<le> a * cos x"
    by (rule mult_left_mono) (simp_all add: assms)
  ultimately show ?thesis using assms(2) by simp
qed

lemma nonneg_foldr_limits:
  assumes "\<forall>i \<in> set is. 0 \<le> T i"
  shows "nonneg (foldr (\<lambda>m least. Math_min (limit_value m) least)
                   (map (\<lambda>i. static_limit (b i) (c i) (T i)) is) PInf)"
  using assms
  by (induction "is") (simp_all add: nonneg_def[of PInf] Math_min_nonneg nonneg_limit_value)

lemma Math_min_PInf_left: "nonneg x \<Longrightarrow> Math_min PInf x = x"
  by (cases x) (simp_all add: nonneg_def Math_min_def)

lemma mvc_point_fins:
  assumes "\<forall>i<6. b i = 0 \<longrightarrow> - real_of (MAX_TORQUES ! i) \<le> c i \<and> c i \<le> real_of (MAX_TORQUES ! i)"
  shows "mvc_point (fins b) (fins c)
           = velocity_limit (map (\<lambda>i. static_limit (b i) (c i) (real_of (MAX_TORQUES ! i))) [0..<6])"
proof -
  have a: "b i = 0 \<longrightarrow> - real_of (MAX_TORQUES ! i) \<le> c i \<and> c i \<le> real_of (MAX_TORQUES ! i)"
    if "i < 6" for i
    using assms that by blast
  have h: "\<forall>i \<in> set [0..<6]. elem (fins b) i = Fin (b i) \<and> elem (fins c) i = Fin (c i)
            \<and> elem MAX_TORQUES i = Fin (real_of (MAX_TORQUES ! i))
            \<and> 0 \<le> real_of (MAX_TORQUES ! i)
            \<and> (b i = 0 \<longrightarrow> - real_of (MAX_TORQUES ! i) \<le> c i \<and> c i \<le> real_of (MAX_TORQUES ! i))"
    using a[of 0] a[of 1] a[of 2] a[of 3] a[of 4] a[of 5]
    by (simp add: upt_0_6 fins_list elem_def MAX_TORQUES_def real_of_def)
  have t: "\<forall>i \<in> set [0..<6]. 0 \<le> real_of (MAX_TORQUES ! i)"
    using h by blast
  have n: "nonneg PInf" by (simp add: nonneg_def)
  show ?thesis
    unfolding mvc_point_def velocity_limit_def foldl_mvc_joint[OF n h]
    using nonneg_foldr_limits[OF t] by (simp only: Math_min_PInf_left)
qed

lemma fins_nth: "i < 6 \<Longrightarrow> fins p ! i = Fin (p i)"
  by (simp add: fins_def del: upt_Suc)

text \<open>
  C5. On the path between two valid states, at every grid point \<open>k\<close> from 0 to 200 the
  coefficients are finite and the loop of the maximum velocity curve computes the square root
  of the minimum over the six joints, clamped at 0, of the largest square of the path
  velocity that satisfies the static box constraint of the joint (\<open>static_limit\<close>, whose
  meaning is \<open>static_limit_meaning\<close>). The curve \<open>s_dot_limit\<close> is this value at the
  interior grid points and is forced to 0 at the grid points 0 and 200.
\<close>

theorem velocity_limit_curve:
  assumes "valid_state startJoints" and "valid_state endJoints" and "k \<le> N_GRID"
    and "co = coefficients (map angle startJoints)
                (delta (map angle startJoints) (map angle endJoints))"
  shows "(\<forall>i<6. finite_num (B_coeffs co ! k ! i) \<and> finite_num (C_coeffs co ! k ! i))
       \<and> mvc_loop co ! k
           = velocity_limit
               (map (\<lambda>i. static_limit (real_of (B_coeffs co ! k ! i)) (real_of (C_coeffs co ! k ! i))
                            (real_of (MAX_TORQUES ! i))) [0..<6])
       \<and> s_dot_limit co ! 0 = Fin 0 \<and> s_dot_limit co ! N_GRID = Fin 0
       \<and> (0 < k \<and> k < N_GRID \<longrightarrow> s_dot_limit co ! k = mvc_loop co ! k)"
proof -
  obtain p q where p: "map angle startJoints = fins p" and q: "map angle endJoints = fins q"
    using valid_state_fins assms(1,2) by blast
  define d where "d = (\<lambda>i. q i - p i)"
  have co: "co = coefficients (fins p) (fins d)"
    using assms(4) by (simp add: p q delta_fins d_def)
  have k: "k < N_GRID + 1" using assms(3) by simp
  define b where "b = (\<lambda>i. if i = 0 then 0 else 0.1 * d i * \<bar>d i\<bar>)"
  define c where "c = gravity_c p d k"
  have B: "B_coeffs co ! k = fins b"
    using k unfolding co coefficients_def b_def
    by (simp add: B_coeff_fins del: upt_Suc)
  have C: "C_coeffs co ! k = fins c"
    using k unfolding co coefficients_def c_def
    by (simp add: C_coeff_fins del: upt_Suc)
  have cb: "\<forall>i<6. - real_of (MAX_TORQUES ! i) \<le> c i \<and> c i \<le> real_of (MAX_TORQUES ! i)"
  proof -
    have "i < 6 \<longleftrightarrow> i = 0 \<or> i = 1 \<or> i = 2 \<or> i = 3 \<or> i = 4 \<or> i = 5" for i :: nat
      by auto
    then show ?thesis
      using cos_bound[of "16 * 9.81 * 0.13" 80] cos_bound[of "8 * 9.81 * 0.15" 40]
        cos_bound[of "1 * 9.81 * 0.02" 10]
      by (auto simp add: c_def gravity_c_def MAX_TORQUES_def real_of_def)
  qed
  have fin: "\<forall>i<6. finite_num (B_coeffs co ! k ! i) \<and> finite_num (C_coeffs co ! k ! i)"
    by (simp add: B C fins_nth)
  have br: "(\<lambda>i. real_of (fins b ! i)) ` {..<6} = b ` {..<6}"
    by (simp add: fins_nth real_of_def)
  have m: "mvc_loop co ! k = mvc_point (fins b) (fins c)"
    using k by (simp add: mvc_loop_def B C del: upt_Suc)
  have sl: "map (\<lambda>i. static_limit (real_of (fins b ! i)) (real_of (fins c ! i)) (real_of (MAX_TORQUES ! i))) [0..<6]
          = map (\<lambda>i. static_limit (b i) (c i) (real_of (MAX_TORQUES ! i))) [0..<6]"
    by (rule map_cong) (simp_all add: fins_nth real_of_def)
  have len: "length (mvc_loop co) = N_GRID + 1"
    by (simp add: mvc_loop_def)
  have ends: "s_dot_limit co ! 0 = Fin 0 \<and> s_dot_limit co ! N_GRID = Fin 0
       \<and> (0 < k \<and> k < N_GRID \<longrightarrow> s_dot_limit co ! k = mvc_loop co ! k)"
    using len by (auto simp add: s_dot_limit_def nth_list_update N_GRID_def)
  show ?thesis
    using fin ends mvc_point_fins[of b c] cb by (simp add: m B C sl)
qed

lemma sweep_valid: "valid_state sweep_start" "valid_state sweep_end"
  by (simp_all add: valid_state_def sweep_start_def sweep_end_def zero_state_def upt_0_6)

lemma sweep_angles:
  "map angle sweep_start = fins sweep_p" "map angle sweep_end = fins sweep_q"
  by (simp_all add: sweep_start_def sweep_end_def fins_list upt_0_6 zero_state_def)

lemma sweep_delta:
  "delta (map angle sweep_start) (map angle sweep_end) = fins (\<lambda>i. sweep_q i - sweep_p i)"
  by (simp add: sweep_angles delta_fins)

lemma sweep_distance:
  "\<not> distance (delta (map angle sweep_start) (map angle sweep_end)) < Fin 0.001"
proof -
  have "(0.001::real) \<le> sqrt 9.25"
    by (rule real_le_rsqrt) (simp add: power2_eq_square)
  then show ?thesis
    by (simp add: sweep_delta distance_def fins_list sweep_p_def sweep_q_def)
qed

lemma sweep_B: "B_coeffs sweep_co ! 100 = [Fin 0, Fin 0, Fin 0.4, Fin 0.1, Fin 0, Fin (- 0.4)]"
  unfolding sweep_co_def sweep_angles delta_fins coefficients_def
  by (simp add: B_coeff_list N_GRID_def sweep_p_def sweep_q_def del: upt_Suc)

lemma sweep_C:
  "C_coeffs sweep_co ! 100 = [Fin 0, Fin 20.4048, Fin 11.772, Fin 0, Fin 0.1962, Fin 0]"
  unfolding sweep_co_def sweep_angles delta_fins coefficients_def
  by (simp add: C_coeff_list N_GRID_def sweep_p_def sweep_q_def del: upt_Suc)

lemma sweep_limits:
  "map (\<lambda>i. static_limit (real_of (B_coeffs sweep_co ! 100 ! i))
                (real_of (C_coeffs sweep_co ! 100 ! i)) (real_of (MAX_TORQUES ! i))) [0..<6]
     = [Unbounded, Unbounded, AtMost 70.57, AtMost 200, Unbounded, AtMost 25]"
  by (simp add: sweep_B sweep_C upt_0_6 MAX_TORQUES_def real_of_def static_limit_def)

lemma sweep_value:
  "velocity_limit [Unbounded, Unbounded, AtMost 70.57, AtMost 200, Unbounded, AtMost 25] = Fin 5"
proof -
  have "sqrt 25 = (5::real)"
    by (rule real_sqrt_unique) simp_all
  then show ?thesis
    by (simp add: velocity_limit_def Math_min_def Math_max_def)
qed

theorem velocity_limit_curve_witness:
  "valid_state sweep_start \<and> valid_state sweep_end \<and> (100::nat) \<le> N_GRID
   \<and> \<not> distance (delta (map angle sweep_start) (map angle sweep_end)) < Fin 0.001
   \<and> B_coeffs sweep_co ! 100 = [Fin 0, Fin 0, Fin 0.4, Fin 0.1, Fin 0, Fin (- 0.4)]
   \<and> C_coeffs sweep_co ! 100 = [Fin 0, Fin 20.4048, Fin 11.772, Fin 0, Fin 0.1962, Fin 0]
   \<and> map (\<lambda>i. static_limit (real_of (B_coeffs sweep_co ! 100 ! i))
                (real_of (C_coeffs sweep_co ! 100 ! i)) (real_of (MAX_TORQUES ! i))) [0..<6]
       = [Unbounded, Unbounded, AtMost 70.57, AtMost 200, Unbounded, AtMost 25]
   \<and> mvc_loop sweep_co ! 100 = Fin 5
   \<and> s_dot_limit sweep_co ! 100 = Fin 5
   \<and> s_dot_limit sweep_co ! 0 = Fin 0 \<and> s_dot_limit sweep_co ! N_GRID = Fin 0"
proof -
  have k: "(100::nat) \<le> N_GRID" by (simp add: N_GRID_def)
  have m: "mvc_loop sweep_co ! 100 = Fin 5"
    and e: "s_dot_limit sweep_co ! 0 = Fin 0 \<and> s_dot_limit sweep_co ! N_GRID = Fin 0"
    and i: "s_dot_limit sweep_co ! 100 = mvc_loop sweep_co ! 100"
    using velocity_limit_curve[OF sweep_valid k sweep_co_def]
    by (simp_all only: sweep_limits sweep_value) (simp add: N_GRID_def)
  show ?thesis
    using k m e i sweep_valid sweep_distance sweep_B sweep_C sweep_limits by simp
qed

section \<open>A short move of the last joint\<close>

lemma resisting_coulomb: "resisting coulomb"
  by (simp add: resisting_def coulomb_def)

lemma sqrt_6250000: "sqrt 6250000 = 2500"
  by (rule real_sqrt_unique) simp_all

lemma wrist_rows:
  assumes "k \<le> N_GRID"
  shows "A_coeffs wrist_co ! k = fins (\<lambda>i. a_gain i * wrist_d i)"
    and "B_coeffs wrist_co ! k = fins (\<lambda>i. if i = 0 then 0 else 0.1 * wrist_d i * \<bar>wrist_d i\<bar>)"
    and "C_coeffs wrist_co ! k = fins (gravity_c (\<lambda>i. 0) wrist_d k)"
  using assms
  by (simp_all add: wrist_co_def coefficients_def A_coeff_fins B_coeff_fins C_coeff_fins
      del: upt_Suc)

lemma wrist_A: "fins (\<lambda>i. a_gain i * wrist_d i) = [Fin 0, Fin 0, Fin 0, Fin 0, Fin 0, Fin 0.000005]"
  by (simp add: fins_list a_gain_def wrist_d_def)

lemma wrist_B:
  "fins (\<lambda>i. if i = 0 then 0 else 0.1 * wrist_d i * \<bar>wrist_d i\<bar>)
     = [Fin 0, Fin 0, Fin 0, Fin 0, Fin 0, Fin 0.0000016]"
  by (simp add: fins_list wrist_d_def)

lemma wrist_C:
  "fins (gravity_c (\<lambda>i. 0) wrist_d k) = [Fin 0, Fin 20.4048, Fin 11.772, Fin 0, Fin 0.1962, Fin 0]"
  by (simp add: fins_list gravity_c_def wrist_d_def)

lemma wrist_deltaq: "fins wrist_d = [Fin 0, Fin 0, Fin 0, Fin 0, Fin 0, Fin 0.004]"
  by (simp add: fins_list wrist_d_def)

lemma resisting_rest:
  assumes "resisting fr" and "i < 6"
  shows "\<exists>f. fr i (Fin 0) = Fin f \<and> \<bar>f\<bar> \<le> 9"
  using assms by (simp add: resisting_def)

lemma resisting_moving:
  assumes "resisting fr"
  shows "\<exists>f>0. fr 5 (Fin 10) = Fin f"
  using assms by (simp add: resisting_def)

lemma wrist_feasible_joint:
  assumes "resisting fr" and "k \<le> N_GRID" and "i < 5"
  shows "acc_joint fr wrist_co (fins wrist_d) k (Fin s) (Some (u_min, u_max)) i = Some (u_min, u_max)"
proof -
  obtain f where f: "fr i (Fin 0) = Fin f" "\<bar>f\<bar> \<le> 9"
    using resisting_rest[OF assms(1), of i] assms(3) by auto
  have "i = 0 \<or> i = 1 \<or> i = 2 \<or> i = 3 \<or> i = 4" using assms(3) by auto
  then show ?thesis
    using f
    by (auto simp add: acc_joint_def wrist_rows[OF assms(2)] wrist_A wrist_B
        wrist_C wrist_deltaq elem_def MAX_TORQUES_def Math_abs_def Let_def)
qed

lemma wrist_joint5_rest:
  assumes "resisting fr" and "k \<le> N_GRID"
  shows "acc_joint fr wrist_co (fins wrist_d) k (Fin 0) (Some (u_min, u_max)) 5 = Some (u_min, u_max)"
proof -
  obtain f where f: "fr 5 (Fin 0) = Fin f" "\<bar>f\<bar> \<le> 9"
    using resisting_rest[OF assms(1), of 5] by auto
  show ?thesis
    using f
    by (auto simp add: acc_joint_def wrist_rows[OF assms(2)] wrist_A wrist_B
        wrist_C wrist_deltaq elem_def MAX_TORQUES_def Math_abs_def Let_def)
qed

lemma wrist_joint5_moving:
  assumes "resisting fr" and "k \<le> N_GRID"
  shows "acc_joint fr wrist_co (fins wrist_d) k (Fin 2500) (Some (u_min, u_max)) 5 = None"
proof -
  obtain f where f: "fr 5 (Fin 10) = Fin f" "0 < f"
    using resisting_moving[OF assms(1)] by auto
  show ?thesis
    using f
    by (auto simp add: acc_joint_def wrist_rows[OF assms(2)] wrist_A wrist_B
        wrist_C wrist_deltaq elem_def MAX_TORQUES_def Math_abs_def Let_def)
qed

lemma wrist_bounds_rest:
  assumes "resisting fr" and "k \<le> N_GRID"
  shows "getAccBounds fr wrist_co (fins wrist_d) k (Fin 0) = Some \<lparr>min_u = MInf, max_u = PInf\<rparr>"
  by (simp add: getAccBounds_def upt_0_6 wrist_feasible_joint[OF assms] wrist_joint5_rest[OF assms])

lemma wrist_bounds_moving:
  assumes "resisting fr" and "k \<le> N_GRID"
  shows "getAccBounds fr wrist_co (fins wrist_d) k (Fin 2500) = None"
  by (simp add: getAccBounds_def upt_0_6 wrist_feasible_joint[OF assms] wrist_joint5_moving[OF assms])

lemma wrist_mvc_point:
  assumes "k \<le> N_GRID"
  shows "mvc_point (B_coeffs wrist_co ! k) (C_coeffs wrist_co ! k) = Fin 2500"
  by (simp add: mvc_point_def upt_0_6 mvc_joint_def wrist_rows[OF assms] wrist_B wrist_C elem_def
      MAX_TORQUES_def Let_def Math_min_def sqrt_6250000)

lemma wrist_s_dot_limit:
  assumes "k \<le> N_GRID"
  shows "s_dot_limit wrist_co ! k = (if k = 0 \<or> k = N_GRID then Fin 0 else Fin 2500)"
proof -
  have "mvc_loop wrist_co ! k = Fin 2500"
    using assms wrist_mvc_point[OF assms] by (simp add: mvc_loop_def del: upt_Suc)
  moreover have "length (mvc_loop wrist_co) = N_GRID + 1"
    by (simp add: mvc_loop_def)
  ultimately show ?thesis
    using assms by (auto simp add: s_dot_limit_def nth_list_update)
qed

lemma length_wrist_beta [simp]: "length (wrist_beta k) = N_GRID + 1"
  by (simp add: wrist_beta_def)

lemma wrist_beta_nth:
  "j \<le> N_GRID \<Longrightarrow> wrist_beta k ! j = (if k \<le> j \<and> odd j then Fin 2500 else Fin 0)"
  by (simp add: wrist_beta_def del: upt_Suc)

lemma wrist_beta_update:
  assumes "k < N_GRID"
  shows "(wrist_beta (Suc k))[k := (if odd k then Fin 2500 else Fin 0)] = wrist_beta k"
proof (rule nth_equalityI)
  show "length ((wrist_beta (Suc k))[k := (if odd k then Fin 2500 else Fin 0)]) = length (wrist_beta k)"
    by simp
next
  fix j assume "j < length ((wrist_beta (Suc k))[k := (if odd k then Fin 2500 else Fin 0)])"
  then have j: "j \<le> N_GRID" by simp
  show "(wrist_beta (Suc k))[k := (if odd k then Fin 2500 else Fin 0)] ! j = wrist_beta k ! j"
    using j assms by (cases "j = k") (auto simp add: wrist_beta_nth nth_list_update)
qed

lemma wrist_backward_step:
  assumes "resisting fr" and "k < N_GRID"
  shows "backward_step fr wrist_co (fins wrist_d) (s_dot_limit wrist_co) (wrist_beta (Suc k)) k
           = wrist_beta k"
proof (cases "odd k")
  case True
  then have k1: "Suc k \<le> N_GRID" "0 < k" using assms(2) by (auto elim: oddE)
  have "backward_step fr wrist_co (fins wrist_d) (s_dot_limit wrist_co) (wrist_beta (Suc k)) k
        = (wrist_beta (Suc k))[k := Fin 2500]"
    using True k1 assms(2)
    by (simp add: backward_step_def wrist_beta_nth wrist_s_dot_limit wrist_bounds_rest[OF assms(1)]
        Let_def ds_Fin Math_min_def Math_max_def minus_num_def)
  then show ?thesis using wrist_beta_update[OF assms(2)] True by simp
next
  case False
  then have e: "odd (Suc k)" by simp
  have k1: "Suc k \<le> N_GRID" using assms(2) by simp
  have ne: "Suc k \<noteq> N_GRID" using e by (auto simp add: N_GRID_def)
  have "backward_step fr wrist_co (fins wrist_d) (s_dot_limit wrist_co) (wrist_beta (Suc k)) k
        = (wrist_beta (Suc k))[k := Fin 0]"
    using e k1 ne
    by (simp add: backward_step_def wrist_beta_nth wrist_s_dot_limit wrist_bounds_moving[OF assms(1)]
        Let_def)
  then show ?thesis using wrist_beta_update[OF assms(2)] False by simp
qed

lemma wrist_backward_from:
  assumes "resisting fr" and "k \<le> N_GRID"
  shows "foldl (backward_step fr wrist_co (fins wrist_d) (s_dot_limit wrist_co))
           (wrist_beta N_GRID) (rev [k..<N_GRID]) = wrist_beta k"
  using assms(2)
proof (induction rule: inc_induct)
  case base
  then show ?case by simp
next
  case (step n)
  have "[n..<N_GRID] = n # [Suc n..<N_GRID]"
    using step.hyps by (simp add: upt_conv_Cons)
  then show ?case
    using step.IH wrist_backward_step[OF assms(1) step.hyps(2)] by simp
qed

lemma wrist_beta_init: "(replicate (N_GRID + 1) (Fin 0))[N_GRID := Fin 0] = wrist_beta N_GRID"
  by (rule nth_equalityI) (auto simp add: wrist_beta_nth nth_list_update N_GRID_def)

lemma wrist_beta_curve:
  assumes "resisting fr"
  shows "beta_curve fr wrist_co (fins wrist_d) (s_dot_limit wrist_co) = wrist_beta 0"
  unfolding beta_curve_def wrist_beta_init
  using wrist_backward_from[OF assms, of 0] by simp

lemma wrist_forward_first:
  assumes "resisting fr"
  shows "forward_step fr wrist_co (fins wrist_d) (wrist_beta 0) (replicate N_GRID (Fin 0), Fin 0) 0
           = (wrist_raw, Fin 2500)"
proof -
  have b: "wrist_beta 0 ! 1 = Fin 2500"
    by (simp add: wrist_beta_nth N_GRID_def)
  have z: "(0::nat) \<le> N_GRID" by simp
  show ?thesis
    using b
    by (simp add: forward_step_def wrist_bounds_rest[OF assms z] Let_def ds_Fin wrist_raw_def
        sqrt_6250000)
qed

lemma wrist_forward_later:
  assumes "resisting fr" and "0 < k" and "k < N_GRID"
  shows "forward_step fr wrist_co (fins wrist_d) (wrist_beta 0) (wrist_raw, Fin 2500) k
           = (wrist_raw, Fin 2500)"
proof -
  have k: "k \<le> N_GRID" using assms(3) by simp
  have "wrist_raw[k := Fin 0] = wrist_raw"
    using assms(2,3) by (intro list_update_same_conv[THEN iffD2]) (simp_all add: wrist_raw_def)
  then show ?thesis
    by (simp add: forward_step_def wrist_bounds_moving[OF assms(1) k] Let_def ds_Fin sqrt_6250000)
qed

lemma wrist_forward_pass:
  assumes "resisting fr" and "0 < n" and "n \<le> N_GRID"
  shows "forward_pass fr wrist_co (fins wrist_d) (wrist_beta 0) n = (wrist_raw, Fin 2500)"
  using assms(2,3)
proof (induction n)
  case 0
  then show ?case by simp
next
  case (Suc n)
  show ?case
  proof (cases "n = 0")
    case True
    then show ?thesis
      using wrist_forward_first[OF assms(1)] by (simp add: forward_pass_def)
  next
    case False
    then have "forward_pass fr wrist_co (fins wrist_d) (wrist_beta 0) n = (wrist_raw, Fin 2500)"
      using Suc by simp
    then show ?thesis
      using wrist_forward_later[OF assms(1), of n] False Suc.prems
      by (simp add: forward_pass_def)
  qed
qed

section \<open>The short move ends at speed\<close>

lemma window_list:
  "[- windowSize..windowSize]
     = [-10, -9, -8, -7, -6, -5, -4, -3, -2, -1, 0, 1, 2, 3, 4, 5, 6, 7, 8, 9, 10]"
  unfolding windowSize_def by code_simp

lemma foldl_window_nonneg:
  assumes "length raw = N_GRID" and "\<forall>j<N_GRID. \<exists>r\<ge>0. raw ! j = Fin r" and "0 \<le> a"
  shows "\<exists>a' n'. foldl (window_step raw k) (Fin a, n) ws = (Fin a', n') \<and> 0 \<le> a' \<and> n \<le> n'
           \<and> (0 \<in> set ws \<and> k < N_GRID \<longrightarrow> n < n')"
  using assms(3)
proof (induction ws arbitrary: a n)
  case Nil
  then show ?case by simp
next
  case (Cons w ws)
  show ?case
  proof (cases "0 \<le> int k + w \<and> int k + w < int N_GRID")
    case True
    then have "nat (int k + w) < N_GRID" by linarith
    then obtain r where r: "0 \<le> r" "raw ! nat (int k + w) = Fin r"
      using assms(2) by blast
    have s: "window_step raw k (Fin a, n) w = (Fin (a + r), n + 1)"
      using True r by (simp add: window_step_def Let_def)
    have "0 \<le> a + r" using Cons.prems r by simp
    from Cons.IH[OF this, of "n + 1"] show ?thesis
      by (auto simp add: s)
  next
    case False
    then have s: "window_step raw k (Fin a, n) w = (Fin a, n)"
      by (auto simp add: window_step_def Let_def)
    have w0: "w = 0 \<Longrightarrow> \<not> k < N_GRID" using False by auto
    from Cons.IH[OF Cons.prems, of n] w0 show ?thesis
      by (auto simp add: s)
  qed
qed

lemma smooth_at_nonneg:
  assumes "length raw = N_GRID" and "\<forall>j<N_GRID. \<exists>r\<ge>0. raw ! j = Fin r" and "k < N_GRID"
  shows "\<exists>c\<ge>0. smooth_at raw k = Fin c"
proof -
  obtain a' n' where f: "foldl (window_step raw k) (Fin 0, 0) [- windowSize..windowSize] = (Fin a', n')"
    "0 \<le> a'" "0 < n'"
    using foldl_window_nonneg[OF assms(1,2), of 0 k 0 "[- windowSize..windowSize]"] assms(3)
    by (auto simp add: window_list)
  show ?thesis
    using f(2,3) by (simp add: smooth_at_def f(1) Let_def Math_abs_def)
qed

lemma wrist_raw_entries: "\<forall>j<N_GRID. \<exists>r\<ge>0. wrist_raw ! j = Fin r"
  by (auto simp add: wrist_raw_def nth_list_update)

lemma length_wrist_raw [simp]: "length wrist_raw = N_GRID"
  by (simp add: wrist_raw_def)

lemma wrist_smooth_nonneg:
  assumes "k < N_GRID"
  shows "\<exists>c\<ge>0. smooth_s_ddot wrist_raw ! k = Fin c"
  using assms smooth_at_nonneg[OF length_wrist_raw wrist_raw_entries assms]
  by (simp add: smooth_s_ddot_def del: upt_Suc)

lemma wrist_smooth_first: "smooth_s_ddot wrist_raw ! 0 = Fin (625000000 / 11)"
proof -
  have "smooth_at wrist_raw 0 = Fin (625000000 / 11)"
    by (simp add: smooth_at_def window_list window_step_def wrist_raw_def N_GRID_def Let_def
        Math_abs_def)
  then show ?thesis by (simp add: smooth_s_ddot_def N_GRID_def upt_conv_Cons del: upt_Suc)
qed

lemma wrist_integ_step:
  assumes "snd (snd st) = Fin y" and "smooth ! k = Fin c" and "562500 \<le> y * y + c / 100"
  shows "fast (integ_step (fins (\<lambda>i. 0)) (fins wrist_d) smooth st k)"
proof -
  define y' where "y' = sqrt (max 0 (y * y + c / 100))"
  have "750\<^sup>2 \<le> max 0 (y * y + c / 100)" using assms(3) by simp
  then have y': "750 \<le> y'" unfolding y'_def by (rule real_le_rsqrt)
  have n: "Math_sqrt (Math_max (Fin 0) (Fin (y * y) + Fin (2 * c) * ds)) = Fin y'"
    by (simp add: ds_Fin y'_def)
  have "snd (snd (integ_step (fins (\<lambda>i. 0)) (fins wrist_d) smooth st k)) = Fin y'
      \<and> fst (integ_step (fins (\<lambda>i. 0)) (fins wrist_d) smooth st k) \<noteq> []
      \<and> velocity (joints (last (fst (integ_step (fins (\<lambda>i. 0)) (fins wrist_d) smooth st k))) ! 5)
           = Fin (y' * 0.004)"
    by (simp add: integ_step_def Let_def assms(1,2) n fins_list wrist_d_def elem_def
        split del: if_split)
  then show ?thesis using y' unfolding fast_def by blast
qed

lemma wrist_integ_later:
  assumes "fast st" and "\<forall>k \<in> set ks. k < N_GRID"
  shows "fast (foldl (integ_step (fins (\<lambda>i. 0)) (fins wrist_d) (smooth_s_ddot wrist_raw)) st ks)"
  using assms
proof (induction ks arbitrary: st)
  case Nil
  then show ?case by simp
next
  case (Cons k ks)
  obtain y where y: "750 \<le> y" "snd (snd st) = Fin y"
    using Cons.prems(1) by (auto simp add: fast_def)
  obtain c where c: "0 \<le> c" "smooth_s_ddot wrist_raw ! k = Fin c"
    using wrist_smooth_nonneg[of k] Cons.prems(2) by auto
  have "750 * 750 \<le> y * y" using y(1) by (intro mult_mono) simp_all
  then have "562500 \<le> y * y + c / 100" using c(1) by simp
  then have "fast (integ_step (fins (\<lambda>i. 0)) (fins wrist_d) (smooth_s_ddot wrist_raw) st k)"
    using wrist_integ_step[OF y(2) c(2)] by simp
  then show ?case using Cons.IH Cons.prems(2) by simp
qed

lemma wrist_integrate:
  "fast (integrate (fins (\<lambda>i. 0)) (fins wrist_d) (smooth_s_ddot wrist_raw))"
proof -
  have u: "[0..<N_GRID] = 0 # [1..<N_GRID]"
    by (simp add: N_GRID_def upt_conv_Cons)
  have "fast (integ_step (fins (\<lambda>i. 0)) (fins wrist_d) (smooth_s_ddot wrist_raw)
                ([\<lparr>joints = map zero_state (fins (\<lambda>i. 0)), time = Fin 0\<rparr>], Fin 0, Fin 0) 0)"
    by (rule wrist_integ_step[where y = 0 and c = "625000000 / 11"])
       (simp_all add: wrist_smooth_first)
  then show ?thesis
    unfolding integrate_def Let_def u by (simp add: wrist_integ_later)
qed

lemma wrist_angles:
  "map angle INITIAL_JOINTS = fins (\<lambda>i. 0)" "map angle wrist_target = fins wrist_d"
  by (simp_all add: INITIAL_JOINTS_list fins_list wrist_target_def upt_0_6 zero_state_def)

lemma wrist_delta: "delta (map angle INITIAL_JOINTS) (map angle wrist_target) = fins wrist_d"
  by (simp add: wrist_angles delta_fins)

lemma wrist_distance:
  "distance (delta (map angle INITIAL_JOINTS) (map angle wrist_target)) = Fin 0.004"
proof -
  have "sqrt (0.004 * 0.004) = (0.004 :: real)"
    by (rule real_sqrt_unique) (simp_all add: power2_eq_square)
  then show ?thesis
    by (simp add: wrist_delta distance_def fins_list wrist_d_def)
qed

lemma wrist_solve:
  assumes "resisting fr"
  shows "fast (integrate (map angle INITIAL_JOINTS) (fins wrist_d)
                 (smooth_s_ddot (fst (forward_pass fr wrist_co (fins wrist_d)
                     (beta_curve fr wrist_co (fins wrist_d) (s_dot_limit wrist_co)) N_GRID))))"
  using wrist_integrate
  by (simp add: wrist_beta_curve[OF assms] wrist_forward_pass[OF assms] wrist_angles N_GRID_def)

text \<open>
  C7, evaluated on the short wrist move under Coulomb friction. The move is not degenerate
  and the solver path completes, but the last sample of the trajectory carries a velocity of
  at least 3 rad/s on the last joint. From the second grid segment on the forward loop
  obtains no acceleration bounds; it then leaves the acceleration at 0 without comparing the
  velocity with the backward curve, and the velocity never returns to rest. The same holds
  for every resisting friction model (\<open>wrist_solve\<close>).
\<close>

theorem wrist_move_ends_fast:
  "\<not> distance (delta (map angle INITIAL_JOINTS) (map angle wrist_target)) < Fin 0.001
   \<and> (case generateTimeOptimalTrajectory coulomb INITIAL_JOINTS wrist_target of
         Inl err \<Rightarrow> False
       | Inr traj \<Rightarrow>
           points traj \<noteq> [] \<and> Fin 3 \<le> velocity (joints (last (points traj)) ! 5))"
proof -
  have d: "\<not> distance (delta (map angle INITIAL_JOINTS) (map angle wrist_target)) < Fin 0.001"
    by (simp add: wrist_distance)
  have g: "generateTimeOptimalTrajectory coulomb INITIAL_JOINTS wrist_target
             = Inr (solve coulomb (map angle INITIAL_JOINTS) (fins wrist_d))"
    using d by (simp add: generateTimeOptimalTrajectory_def try_body_def Let_def wrist_delta)
  have "fast (integrate (map angle INITIAL_JOINTS) (fins wrist_d)
                 (smooth_s_ddot (fst (forward_pass coulomb wrist_co (fins wrist_d)
                     (beta_curve coulomb wrist_co (fins wrist_d) (s_dot_limit wrist_co)) N_GRID))))"
    by (rule wrist_solve[OF resisting_coulomb])
  then obtain y where y: "750 \<le> y" "points (solve coulomb (map angle INITIAL_JOINTS) (fins wrist_d)) \<noteq> []"
    "velocity (joints (last (points (solve coulomb (map angle INITIAL_JOINTS) (fins wrist_d)))) ! 5)
       = Fin (y * 0.004)"
    by (auto simp add: fast_def solve_def Let_def wrist_co_def wrist_angles)
  have "3 \<le> y * 0.004" using y(1) by simp
  then have "Fin 3 \<le> velocity (joints (last (points (solve coulomb (map angle INITIAL_JOINTS)
                  (fins wrist_d)))) ! 5)"
    by (simp add: y(3))
  then show ?thesis using d g y(2) by simp
qed

section \<open>The shape of the acceleration bounds\<close>












section \<open>The limit curve is finite where it matters\<close>











section \<open>The backward curve is a curve of velocities\<close>







section \<open>The forward pass\<close>

lemma length_forward_step [simp]:
  "length (fst (forward_step fr co dq beta st k)) = length (fst st)"
  by (simp add: forward_step_def Let_def)












section \<open>The last sample is at the end configuration\<close>

lemma integ_step_last_angles:
  "map angle (joints (last (fst (integ_step startq deltaq smooth st k))))
     = map (\<lambda>i. startq ! i + Fin (real (k + 1)) / Fin (real N_GRID) * elem deltaq i)
         [0..<length startq]"
  by (simp add: integ_step_def Let_def map_enumerate_nth comp_def)

lemma integrate_last_angles:
  "map angle (joints (last (fst (integrate startq deltaq smooth))))
     = map (\<lambda>i. startq ! i + Fin 1 * elem deltaq i) [0..<length startq]"
proof -
  have "[0..<Suc (N_GRID - 1)] = [0..<N_GRID - 1] @ [N_GRID - 1]"
    by (simp only: upt_Suc_append le0)
  then have u: "[0..<N_GRID] = [0..<N_GRID - 1] @ [N_GRID - 1]"
    by (simp add: N_GRID_def)
  have n: "Fin (real (N_GRID - 1 + 1)) / Fin (real N_GRID) = Fin 1"
    by (simp add: N_GRID_def)
  have "map angle (joints (last (fst (integ_step startq deltaq smooth st (N_GRID - 1)))))
     = map (\<lambda>i. startq ! i + Fin 1 * elem deltaq i) [0..<length startq]" for st
    unfolding integ_step_last_angles n by (rule refl)
  then show ?thesis
    unfolding integrate_def Let_def by (subst u) (simp only: foldl_append foldl.simps)
qed

lemma last_angles_are_end:
  assumes "valid_state startJoints" and "valid_state endJoints"
  shows "map angle (joints (last (points (solve fr (map angle startJoints)
                      (delta (map angle startJoints) (map angle endJoints))))))
           = map angle endJoints"
proof -
  obtain p q where p: "map angle startJoints = fins p" and q: "map angle endJoints = fins q"
    using valid_state_fins assms by blast
  have "map (\<lambda>i. fins p ! i + Fin 1 * elem (fins (\<lambda>i. q i - p i)) i) [0..<length (fins p)] = fins q"
    by (simp add: fins_list upt_0_6 elem_def)
  then show ?thesis
    by (simp add: solve_def Let_def integrate_last_angles p q delta_fins)
qed

section \<open>The controller plays the short move\<close>

lemma wrist_integ_step_time:
  assumes "snd (snd st) = Fin y" and "0 \<le> y" and "fst (snd st) = Fin t"
    and "smooth ! k = Fin c" and "562500 \<le> y * y + c / 100"
  shows "fst (snd (integ_step (fins (\<lambda>i. 0)) (fins wrist_d) smooth st k)) = Fin (t + 0.0001)"
proof -
  define y' where "y' = sqrt (max 0 (y * y + c / 100))"
  have "750\<^sup>2 \<le> max 0 (y * y + c / 100)" using assms(5) by simp
  then have y': "750 \<le> y'" unfolding y'_def by (rule real_le_rsqrt)
  have n: "Math_sqrt (Math_max (Fin 0) (Fin (y * y) + Fin (2 * c) * ds)) = Fin y'"
    by (simp add: ds_Fin y'_def)
  define v where "v = (y + y') / 2"
  have v: "375 \<le> v" using y' assms(2) by (simp add: v_def)
  have "1 / 200 / v \<le> 1 / 200 / 375"
    using v by (intro divide_left_mono) simp_all
  then have m: "max (1 / 200 / v) 0.0001 = 0.0001" by simp
  have v0: "(0.0001::real) < v" using v by simp
  have e: "fst (snd (integ_step (fins (\<lambda>i. 0)) (fins wrist_d) smooth st k))
             = Fin t + Math_max ((if Fin 0.0001 < (Fin y + Fin y') / Fin 2
                                  then ds / ((Fin y + Fin y') / Fin 2) else Fin 0.01)
                                 * PLAYBACK_SPEED_FACTOR) (Fin 0.0001)"
    by (simp add: integ_step_def Let_def assms(1,3,4) n split del: if_split cong: if_cong)
  have a: "(Fin y + Fin y') / Fin 2 = Fin v"
    by (simp add: v_def)
  have "Math_max ((if Fin 0.0001 < Fin v then ds / Fin v else Fin 0.01) * PLAYBACK_SPEED_FACTOR)
          (Fin 0.0001) = Fin 0.0001"
    using v0 m v by (simp add: ds_Fin PLAYBACK_SPEED_FACTOR_def)
  then show ?thesis
    unfolding e a by simp
qed

lemma wrist_time_later:
  assumes "fast st" and "fst (snd st) = Fin t" and "\<forall>k \<in> set ks. k < N_GRID"
  shows "fst (snd (foldl (integ_step (fins (\<lambda>i. 0)) (fins wrist_d) (smooth_s_ddot wrist_raw)) st ks))
           = Fin (t + 0.0001 * real (length ks))"
  using assms
proof (induction ks arbitrary: st t)
  case Nil
  then show ?case by simp
next
  case (Cons k ks)
  obtain y where y: "750 \<le> y" "snd (snd st) = Fin y"
    using Cons.prems(1) by (auto simp add: fast_def)
  obtain c where c: "0 \<le> c" "smooth_s_ddot wrist_raw ! k = Fin c"
    using wrist_smooth_nonneg[of k] Cons.prems(3) by auto
  have "750 * 750 \<le> y * y" using y(1) by (intro mult_mono) simp_all
  then have b: "562500 \<le> y * y + c / 100" using c(1) by simp
  have f: "fast (integ_step (fins (\<lambda>i. 0)) (fins wrist_d) (smooth_s_ddot wrist_raw) st k)"
    using wrist_integ_step[OF y(2) c(2)] b by simp
  have y0: "0 \<le> y" using y(1) by simp
  have t: "fst (snd (integ_step (fins (\<lambda>i. 0)) (fins wrist_d) (smooth_s_ddot wrist_raw) st k))
            = Fin (t + 0.0001)"
    by (rule wrist_integ_step_time[OF y(2) y0 Cons.prems(2) c(2) b])
  show ?case
    using Cons.IH[OF f t] Cons.prems(3) by (simp add: algebra_simps)
qed

lemma wrist_duration:
  "fst (snd (integrate (fins (\<lambda>i. 0)) (fins wrist_d) (smooth_s_ddot wrist_raw))) = Fin 0.02"
proof -
  have u: "[0..<N_GRID] = 0 # [1..<N_GRID]"
    by (simp add: N_GRID_def upt_conv_Cons)
  define st0 :: "Frame list \<times> num \<times> num"
    where "st0 = ([\<lparr>joints = map zero_state (fins (\<lambda>i. 0)), time = Fin 0\<rparr>], Fin 0, Fin 0)"
  have f: "fast (integ_step (fins (\<lambda>i. 0)) (fins wrist_d) (smooth_s_ddot wrist_raw) st0 0)"
    by (rule wrist_integ_step[where y = 0 and c = "625000000 / 11"])
       (simp_all add: wrist_smooth_first st0_def)
  have t: "fst (snd (integ_step (fins (\<lambda>i. 0)) (fins wrist_d) (smooth_s_ddot wrist_raw) st0 0))
             = Fin (0 + 0.0001)"
    by (rule wrist_integ_step_time[where y = 0 and c = "625000000 / 11"])
       (simp_all add: wrist_smooth_first st0_def)
  have "\<forall>k \<in> set [1..<N_GRID]. k < N_GRID" by simp
  from wrist_time_later[OF f t this] show ?thesis
    unfolding integrate_def Let_def u st0_def by (simp add: N_GRID_def)
qed

lemma integ_step_last_length:
  "length (joints (last (fst (integ_step startq deltaq smooth st k)))) = length startq"
  by (simp add: integ_step_def Let_def)

lemma integrate_last_length:
  "length (joints (last (fst (integrate startq deltaq smooth)))) = length startq"
proof -
  have "[0..<Suc (N_GRID - 1)] = [0..<N_GRID - 1] @ [N_GRID - 1]"
    by (simp only: upt_Suc_append le0)
  then have u: "[0..<N_GRID] = [0..<N_GRID - 1] @ [N_GRID - 1]"
    by (simp add: N_GRID_def)
  show ?thesis
    unfolding integrate_def Let_def
    by (subst u) (simp only: foldl_append foldl.simps integ_step_last_length)
qed

lemma wrist_trajectory_props:
  "generateTimeOptimalTrajectory coulomb INITIAL_JOINTS wrist_target
     = Inr \<lparr>points = wrist_trajectory, duration = Fin 0.02\<rparr>
   \<and> wrist_trajectory \<noteq> [] \<and> increasing_times wrist_trajectory
   \<and> time (last wrist_trajectory) = Fin 0.02
   \<and> length (joints (last wrist_trajectory)) = 6
   \<and> Fin 3 \<le> velocity (joints (last wrist_trajectory) ! 5)"
proof -
  define sol where "sol = solve coulomb (map angle INITIAL_JOINTS) (fins wrist_d)"
  have d: "\<not> distance (delta (map angle INITIAL_JOINTS) (map angle wrist_target)) < Fin 0.001"
    by (simp add: wrist_distance)
  have g: "generateTimeOptimalTrajectory coulomb INITIAL_JOINTS wrist_target = Inr sol"
    using d by (simp add: generateTimeOptimalTrajectory_def try_body_def Let_def wrist_delta sol_def)
  have w: "wrist_trajectory = points sol"
    by (simp add: wrist_trajectory_def g)
  have i: "sol = \<lparr>points = fst (integrate (fins (\<lambda>i. 0)) (fins wrist_d) (smooth_s_ddot wrist_raw)),
                  duration = fst (snd (integrate (fins (\<lambda>i. 0)) (fins wrist_d) (smooth_s_ddot wrist_raw)))\<rparr>"
    unfolding sol_def solve_def Let_def
    using wrist_beta_curve[OF resisting_coulomb] wrist_forward_pass[OF resisting_coulomb]
    by (simp add: wrist_angles wrist_co_def N_GRID_def)
  have p: "points sol \<noteq> [] \<and> increasing_times (points sol)
           \<and> duration sol = time (last (points sol))"
    unfolding sol_def using solve_props[of coulomb "map angle INITIAL_JOINTS" "fins wrist_d"] by simp
  have du: "duration sol = Fin 0.02"
    by (simp add: i wrist_duration)
  have len: "length (joints (last (points sol))) = 6"
    by (simp add: i integrate_last_length)
  obtain y where y: "750 \<le> y"
    "velocity (joints (last (points sol)) ! 5) = Fin (y * 0.004)"
    using wrist_integrate by (auto simp add: fast_def i)
  have "3 \<le> y * 0.004" using y(1) by simp
  then have v: "Fin 3 \<le> velocity (joints (last (points sol)) ! 5)"
    by (simp add: y(2))
  have "sol = \<lparr>points = points sol, duration = Fin 0.02\<rparr>"
    using du by (cases sol) simp
  then show ?thesis
    using g w p du len v by simp
qed

lemma physics_update_nth:
  "i < length js \<Longrightarrow> velocity (physics_update fr js ! i) = velocity (js ! i)"
  using physics_update_keeps[of fr js] by (metis length_map nth_map)

text \<open>
  C9 as stated, with the final sample held at rest, fails on the trajectory that the planner
  returns for the short wrist move under Coulomb friction. Its last sample is at 0.02 s. A
  tick of the controller one second after the start of the move is in the Moving state and
  past the end: it records the dwell-start time and hands over the last sample as it is,
  with a velocity of at least 3 rad/s on the last joint.
\<close>

theorem final_sample_moving:
  "generateTimeOptimalTrajectory coulomb INITIAL_JOINTS wrist_target
     = Inr \<lparr>points = wrist_trajectory, duration = Fin 0.02\<rparr>
   \<and> time (last wrist_trajectory) = Fin 0.02
   \<and> moveTime_of (Fin 1000) (playing_controller wrist_trajectory) = Fin 1
   \<and> (case loopCallback coulomb (\<lambda>n. Fin 0) (Fin 1000) (playing_controller wrist_trajectory) of
         Inl err \<Rightarrow> False
       | Inr (st', out) \<Rightarrow>
           dwellStartTimeRef st' = Some (Fin 1000)
           \<and> (case out of
                 None \<Rightarrow> False
               | Some js \<Rightarrow> js = physics_update coulomb (joints (last wrist_trajectory))
                            \<and> Fin 3 \<le> velocity (js ! 5)))"
proof -
  define st where "st = playing_controller wrist_trajectory"
  have h: "isPlayingRef st" "dwellStartTimeRef st = None" "trajectoryRef st = wrist_trajectory"
    by (simp_all add: st_def playing_controller_def)
  have m: "moveTime_of (Fin 1000) st = Fin 1"
    by (simp add: st_def playing_controller_def moveTime_of_def)
  have ne: "trajectoryRef st \<noteq> []" using h(3) wrist_trajectory_props by simp
  have "time (last wrist_trajectory) < moveTime_of (Fin 1000) st"
    using wrist_trajectory_props by (simp add: m)
  then have none: "findIndex (\<lambda>frame. moveTime_of (Fin 1000) st \<le> time frame) wrist_trajectory = None"
    using past_the_end wrist_trajectory_props by blast
  obtain st1 where lc: "loopCallback coulomb (\<lambda>n. Fin 0) (Fin 1000) st
       = emit coulomb (st1\<lparr>dwellStartTimeRef := Some (Fin 1000)\<rparr>) (joints (last wrist_trajectory))"
    using loopCallback_moving[OF h(1,2) ne, of coulomb "\<lambda>n. Fin 0" "Fin 1000"]
    by (auto simp add: h(3) none)
  have v: "Fin 3 \<le> velocity (physics_update coulomb (joints (last wrist_trajectory)) ! 5)"
    using wrist_trajectory_props by (simp add: physics_update_nth)
  show ?thesis
    using wrist_trajectory_props m v
    by (simp add: st_def[symmetric] lc emit_def Let_def)
qed

section \<open>The planner when the friction model throws\<close>

text \<open>
  With a friction model that returns at every call, the planner of this section is the
  planner of the other sections.
\<close>

lemma foldl_acc_joint_exc_Inl:
  "foldl (acc_joint_exc ffr co deltaq k s_dot) (Inl err) is = Inl err"
  by (induction "is") (simp_all add: acc_joint_exc_def)

lemma acc_joint_exc_returning:
  "acc_joint_exc (returning fr) co deltaq k s_dot (Inr st) i
     = Inr (acc_joint fr co deltaq k s_dot st i)"
  by (simp add: acc_joint_exc_def acc_joint_def returning_def Let_def split: option.splits)

lemma foldl_acc_joint_exc_returning:
  "foldl (acc_joint_exc (returning fr) co deltaq k s_dot) (Inr st) is
     = Inr (foldl (acc_joint fr co deltaq k s_dot) st is)"
  by (induction "is" arbitrary: st) (simp_all add: acc_joint_exc_returning)

lemma getAccBounds_exc_returning:
  "getAccBounds_exc (returning fr) co deltaq k s_dot = Inr (getAccBounds fr co deltaq k s_dot)"
  by (simp add: getAccBounds_exc_def getAccBounds_def foldl_acc_joint_exc_returning
      split: option.splits)

lemma backward_step_exc_returning:
  "backward_step_exc (returning fr) co deltaq s_limit (Inr beta) k
     = Inr (backward_step fr co deltaq s_limit beta k)"
  by (simp add: backward_step_exc_def backward_step_def getAccBounds_exc_returning Let_def
      split: option.splits)

lemma foldl_backward_step_exc_returning:
  "foldl (backward_step_exc (returning fr) co deltaq s_limit) (Inr beta) ks
     = Inr (foldl (backward_step fr co deltaq s_limit) beta ks)"
  by (induction ks arbitrary: beta) (simp_all add: backward_step_exc_returning)

lemma beta_curve_exc_returning:
  "beta_curve_exc (returning fr) co deltaq s_limit = Inr (beta_curve fr co deltaq s_limit)"
  unfolding beta_curve_exc_def beta_curve_def by (rule foldl_backward_step_exc_returning)

lemma forward_step_exc_returning:
  "forward_step_exc (returning fr) co deltaq beta (Inr st) k
     = Inr (forward_step fr co deltaq beta st k)"
  by (cases st)
     (simp add: forward_step_exc_def forward_step_def getAccBounds_exc_returning Let_def)

lemma foldl_forward_step_exc_returning:
  "foldl (forward_step_exc (returning fr) co deltaq beta) (Inr st) ks
     = Inr (foldl (forward_step fr co deltaq beta) st ks)"
  by (induction ks arbitrary: st) (simp_all add: forward_step_exc_returning)

lemma forward_pass_exc_returning:
  "forward_pass_exc (returning fr) co deltaq beta n = Inr (forward_pass fr co deltaq beta n)"
  unfolding forward_pass_exc_def forward_pass_def by (rule foldl_forward_step_exc_returning)

lemma solve_exc_returning:
  "solve_exc (returning fr) startq deltaq = Inr (solve fr startq deltaq)"
  by (simp add: solve_exc_def solve_def beta_curve_exc_returning forward_pass_exc_returning Let_def)

lemma try_body_exc_returning:
  "try_body_exc (returning fr) startJoints endJoints = try_body fr startJoints endJoints"
  by (simp add: try_body_exc_def try_body_def solve_exc_returning Let_def)

lemma returning_friction:
  "generateTimeOptimalTrajectory_exc (returning fr) startJoints endJoints
     = generateTimeOptimalTrajectory fr startJoints endJoints"
  by (simp add: generateTimeOptimalTrajectory_exc_def generateTimeOptimalTrajectory_def
      try_body_exc_returning)

text \<open>
  With a friction model that throws at every call for the base joint, the solver path throws:
  the first iteration of the backward pass calls it.
\<close>

lemma getAccBounds_exc_raises:
  assumes "\<forall>v. ffr 0 v = Inl err"
  shows "getAccBounds_exc ffr co deltaq k s_dot = Inl err"
proof -
  have "[0..<6] = 0 # [1..<6]" by (simp add: upt_conv_Cons)
  then show ?thesis
    using assms
    by (simp add: getAccBounds_exc_def acc_joint_exc_def Let_def foldl_acc_joint_exc_Inl)
qed

lemma foldl_backward_step_exc_Inl:
  "foldl (backward_step_exc ffr co deltaq s_limit) (Inl err) ks = Inl err"
  by (induction ks) (simp_all add: backward_step_exc_def)

lemma beta_curve_exc_raises:
  assumes "\<forall>v. ffr 0 v = Inl err"
  shows "beta_curve_exc ffr co deltaq s_limit = Inl err"
proof -
  have "[0..<Suc (N_GRID - 1)] = [0..<N_GRID - 1] @ [N_GRID - 1]"
    by (simp only: upt_Suc_append le0)
  then have u: "rev [0..<N_GRID] = (N_GRID - 1) # rev [0..<N_GRID - 1]"
    by (simp add: N_GRID_def)
  show ?thesis
    unfolding beta_curve_exc_def u
    by (simp add: backward_step_exc_def Let_def getAccBounds_exc_raises[where ffr = ffr and err = err, OF assms]
        foldl_backward_step_exc_Inl)
qed

lemma solve_exc_raises:
  assumes "\<forall>v. ffr 0 v = Inl err"
  shows "solve_exc ffr startq deltaq = Inl err"
  by (simp add: solve_exc_def Let_def beta_curve_exc_raises[where ffr = ffr and err = err, OF assms])

text \<open>
  With the friction model that throws beyond 5 rad/s, the solver path of the short wrist
  move throws in the second iteration of the backward pass: the first iteration probes the
  path at rest and completes, the second one probes it at the path velocity 2500, where the
  last joint moves at 10 rad/s.
\<close>

lemma acc_joint_exc_agree:
  assumes "ffr i (s_dot * elem deltaq i) = Inr (fr i (s_dot * elem deltaq i))"
  shows "acc_joint_exc ffr co deltaq k s_dot (Inr st) i = Inr (acc_joint fr co deltaq k s_dot st i)"
  using assms
  by (simp add: acc_joint_exc_def acc_joint_def Let_def split: option.splits)

lemma backward_step_exc_agree:
  assumes "getAccBounds_exc ffr co deltaq (k + 1) (Math_min (beta ! (k + 1)) (s_limit ! (k + 1)))
             = Inr (getAccBounds fr co deltaq (k + 1) (Math_min (beta ! (k + 1)) (s_limit ! (k + 1))))"
  shows "backward_step_exc ffr co deltaq s_limit (Inr beta) k
           = Inr (backward_step fr co deltaq s_limit beta k)"
  using assms
  by (simp add: backward_step_exc_def backward_step_def Let_def split: option.splits)

lemma limited_wrist_joint:
  assumes "k \<le> N_GRID" and "i < 5"
  shows "acc_joint_exc limited_friction wrist_co (fins wrist_d) k (Fin s) (Inr (Some (u_min, u_max))) i
           = Inr (Some (u_min, u_max))"
proof -
  have "i = 0 \<or> i = 1 \<or> i = 2 \<or> i = 3 \<or> i = 4" using assms(2) by auto
  then have "limited_friction i (Fin s * elem (fins wrist_d) i)
               = Inr (coulomb i (Fin s * elem (fins wrist_d) i))"
    by (auto simp add: limited_friction_def wrist_deltaq elem_def Math_abs_def)
  then show ?thesis
    by (simp add: acc_joint_exc_agree[where fr = coulomb]
        wrist_feasible_joint[OF resisting_coulomb assms])
qed

lemma limited_wrist_joint5_rest:
  assumes "k \<le> N_GRID"
  shows "acc_joint_exc limited_friction wrist_co (fins wrist_d) k (Fin 0) (Inr (Some (u_min, u_max))) 5
           = Inr (Some (u_min, u_max))"
proof -
  have "limited_friction 5 (Fin 0 * elem (fins wrist_d) 5)
               = Inr (coulomb 5 (Fin 0 * elem (fins wrist_d) 5))"
    by (simp add: limited_friction_def wrist_deltaq elem_def Math_abs_def)
  then show ?thesis
    by (simp add: acc_joint_exc_agree[where fr = coulomb]
        wrist_joint5_rest[OF resisting_coulomb assms])
qed

lemma limited_wrist_joint5_moving:
  "acc_joint_exc limited_friction wrist_co (fins wrist_d) k (Fin 2500) (Inr (Some (u_min, u_max))) 5
     = Inl FrictionError"
  by (simp add: acc_joint_exc_def Let_def limited_friction_def wrist_deltaq elem_def Math_abs_def)

lemma limited_bounds_rest:
  assumes "k \<le> N_GRID"
  shows "getAccBounds_exc limited_friction wrist_co (fins wrist_d) k (Fin 0)
           = Inr (Some \<lparr>min_u = MInf, max_u = PInf\<rparr>)"
  by (simp add: getAccBounds_exc_def upt_0_6 limited_wrist_joint[OF assms]
      limited_wrist_joint5_rest[OF assms])

lemma limited_bounds_moving:
  assumes "k \<le> N_GRID"
  shows "getAccBounds_exc limited_friction wrist_co (fins wrist_d) k (Fin 2500) = Inl FrictionError"
  by (simp add: getAccBounds_exc_def upt_0_6 limited_wrist_joint[OF assms]
      limited_wrist_joint5_moving)

lemma limited_backward_first:
  "backward_step_exc limited_friction wrist_co (fins wrist_d) (s_dot_limit wrist_co)
     (Inr (wrist_beta N_GRID)) (N_GRID - 1) = Inr (wrist_beta (N_GRID - 1))"
proof -
  have s: "Math_min (wrist_beta N_GRID ! (N_GRID - 1 + 1)) (s_dot_limit wrist_co ! (N_GRID - 1 + 1))
             = Fin 0"
    by (simp add: wrist_beta_nth wrist_s_dot_limit N_GRID_def)
  have "getAccBounds_exc limited_friction wrist_co (fins wrist_d) (N_GRID - 1 + 1) (Fin 0)
          = Inr (getAccBounds coulomb wrist_co (fins wrist_d) (N_GRID - 1 + 1) (Fin 0))"
    by (simp add: limited_bounds_rest wrist_bounds_rest[OF resisting_coulomb] N_GRID_def)
  then have "backward_step_exc limited_friction wrist_co (fins wrist_d) (s_dot_limit wrist_co)
     (Inr (wrist_beta N_GRID)) (N_GRID - 1)
       = Inr (backward_step coulomb wrist_co (fins wrist_d) (s_dot_limit wrist_co)
                (wrist_beta N_GRID) (N_GRID - 1))"
    by (intro backward_step_exc_agree) (simp only: s)
  moreover have "Suc (N_GRID - 1) = N_GRID" by (simp add: N_GRID_def)
  ultimately show ?thesis
    using wrist_backward_step[OF resisting_coulomb, of "N_GRID - 1"] by (simp add: N_GRID_def)
qed

lemma limited_backward_second:
  "backward_step_exc limited_friction wrist_co (fins wrist_d) (s_dot_limit wrist_co)
     (Inr (wrist_beta (N_GRID - 1))) (N_GRID - 2) = Inl FrictionError"
  by (simp add: backward_step_exc_def Let_def wrist_beta_nth wrist_s_dot_limit
      limited_bounds_moving N_GRID_def)

lemma limited_solve:
  "solve_exc limited_friction (fins (\<lambda>i. 0)) (fins wrist_d) = Inl FrictionError"
proof -
  have "[0..<Suc (Suc 198)] = [0..<198] @ [198, 199]"
    by (simp only: upt_Suc_append le0) simp
  then have u: "rev [0..<N_GRID] = (N_GRID - 1) # (N_GRID - 2) # rev [0..<N_GRID - 2]"
    by (simp add: N_GRID_def)
  have "beta_curve_exc limited_friction wrist_co (fins wrist_d) (s_dot_limit wrist_co)
               = Inl FrictionError"
    unfolding beta_curve_exc_def wrist_beta_init u
    by (simp only: foldl.simps limited_backward_first limited_backward_second
        foldl_backward_step_exc_Inl)
  then show ?thesis
    by (simp add: solve_exc_def Let_def wrist_co_def[symmetric])
qed

lemma limited_try_body:
  "try_body_exc limited_friction INITIAL_JOINTS wrist_target = Inl FrictionError"
proof -
  have d: "\<not> distance (fins wrist_d) < Fin 0.001"
    using wrist_distance by (simp add: wrist_delta)
  show ?thesis
    unfolding try_body_exc_def Let_def wrist_delta
    using d by (simp add: wrist_angles(1) limited_solve)
qed

text \<open>
  C1. For six-joint start and end states the planner never throws, whatever the calls of
  the friction model do: it returns a trajectory. When the body of the \<open>try\<close> block
  completes, the trajectory is the result of the body; when the body throws, the exception is
  caught and the trajectory is the linear fallback. In every case the trajectory is the
  solution of the solver path or the linear fallback. With a friction model \<open>fr\<close> that
  returns at every call, the planner is the \<open>generateTimeOptimalTrajectory\<close> of the other
  sections.
\<close>

theorem planner_never_throws:
  assumes "length startJoints = 6" and "length endJoints = 6"
  shows "\<exists>traj. generateTimeOptimalTrajectory_exc ffr startJoints endJoints = Inr traj
           \<and> (case try_body_exc ffr startJoints endJoints of
                 Inr result \<Rightarrow> traj = result
               | Inl err \<Rightarrow> generateLinearFallback startJoints endJoints = Inr traj)
           \<and> (solve_exc ffr (map angle startJoints)
                  (delta (map angle startJoints) (map angle endJoints)) = Inr traj
              \<or> generateLinearFallback startJoints endJoints = Inr traj)
           \<and> generateTimeOptimalTrajectory_exc (returning fr) startJoints endJoints
                = generateTimeOptimalTrajectory fr startJoints endJoints"
proof -
  have len: "length endJoints = length startJoints" using assms by simp
  have "\<exists>traj. generateTimeOptimalTrajectory_exc ffr startJoints endJoints = Inr traj
           \<and> (case try_body_exc ffr startJoints endJoints of
                 Inr result \<Rightarrow> traj = result
               | Inl err \<Rightarrow> generateLinearFallback startJoints endJoints = Inr traj)
           \<and> (solve_exc ffr (map angle startJoints)
                  (delta (map angle startJoints) (map angle endJoints)) = Inr traj
              \<or> generateLinearFallback startJoints endJoints = Inr traj)"
    by (auto simp add: generateTimeOptimalTrajectory_exc_def try_body_exc_def Let_def
        fallback_ok[OF len] split: sum.splits)
  then show ?thesis
    using returning_friction[of fr startJoints endJoints] by simp
qed

theorem planner_never_throws_witness:
  "length INITIAL_JOINTS = 6 \<and> length wrist_target = 6
   \<and> \<not> distance (delta (map angle INITIAL_JOINTS) (map angle wrist_target)) < Fin 0.001
   \<and> try_body_exc limited_friction INITIAL_JOINTS wrist_target = Inl FrictionError
   \<and> generateTimeOptimalTrajectory_exc limited_friction INITIAL_JOINTS wrist_target
       = Inr \<lparr>points = map (fallback_frame INITIAL_JOINTS wrist_target) [0..<61],
              duration = Fin 3\<rparr>
   \<and> try_body_exc broken_friction INITIAL_JOINTS wrist_target = Inl FrictionError
   \<and> generateTimeOptimalTrajectory_exc broken_friction INITIAL_JOINTS wrist_target
       = Inr \<lparr>points = map (fallback_frame INITIAL_JOINTS wrist_target) [0..<61],
              duration = Fin 3\<rparr>
   \<and> try_body_exc (returning coulomb) INITIAL_JOINTS wrist_target
       = Inr (solve coulomb (map angle INITIAL_JOINTS)
                (delta (map angle INITIAL_JOINTS) (map angle wrist_target)))
   \<and> generateTimeOptimalTrajectory_exc (returning coulomb) INITIAL_JOINTS wrist_target
       = Inr (solve coulomb (map angle INITIAL_JOINTS)
                (delta (map angle INITIAL_JOINTS) (map angle wrist_target)))
   \<and> generateTimeOptimalTrajectory coulomb INITIAL_JOINTS wrist_target
       = Inr (solve coulomb (map angle INITIAL_JOINTS)
                (delta (map angle INITIAL_JOINTS) (map angle wrist_target)))"
proof -
  have l: "length INITIAL_JOINTS = 6" "length wrist_target = 6"
    by (simp_all add: INITIAL_JOINTS_def wrist_target_def)
  have d: "\<not> distance (delta (map angle INITIAL_JOINTS) (map angle wrist_target)) < Fin 0.001"
    by (simp add: wrist_distance)
  have t: "try_body_exc broken_friction INITIAL_JOINTS wrist_target = Inl FrictionError"
    using d by (simp add: try_body_exc_def Let_def solve_exc_raises broken_friction_def)
  have f: "generateLinearFallback INITIAL_JOINTS wrist_target
             = Inr \<lparr>points = map (fallback_frame INITIAL_JOINTS wrist_target) [0..<61],
                    duration = Fin 3\<rparr>"
    by (rule fallback_ok) (simp add: l)
  have r: "try_body_exc (returning coulomb) INITIAL_JOINTS wrist_target
       = Inr (solve coulomb (map angle INITIAL_JOINTS)
                (delta (map angle INITIAL_JOINTS) (map angle wrist_target)))"
    using d by (simp add: try_body_exc_def Let_def solve_exc_returning)
  have a: "generateTimeOptimalTrajectory_exc broken_friction INITIAL_JOINTS wrist_target
       = Inr \<lparr>points = map (fallback_frame INITIAL_JOINTS wrist_target) [0..<61],
              duration = Fin 3\<rparr>"
    using planner_never_throws[OF l, where ffr = broken_friction and fr = coulomb]
    by (auto simp add: t f)
  have c: "generateTimeOptimalTrajectory_exc limited_friction INITIAL_JOINTS wrist_target
       = Inr \<lparr>points = map (fallback_frame INITIAL_JOINTS wrist_target) [0..<61],
              duration = Fin 3\<rparr>"
    using planner_never_throws[OF l, where ffr = limited_friction and fr = coulomb]
    by (auto simp add: limited_try_body f)
  have b: "generateTimeOptimalTrajectory_exc (returning coulomb) INITIAL_JOINTS wrist_target
       = Inr (solve coulomb (map angle INITIAL_JOINTS)
                (delta (map angle INITIAL_JOINTS) (map angle wrist_target)))"
    and g: "generateTimeOptimalTrajectory_exc (returning coulomb) INITIAL_JOINTS wrist_target
       = generateTimeOptimalTrajectory coulomb INITIAL_JOINTS wrist_target"
    using planner_never_throws[OF l, where ffr = "returning coulomb" and fr = coulomb]
    by (auto simp add: r)
  show ?thesis
    using l d t r a b c g limited_try_body by simp
qed

text \<open>
  The hypothesis on the number of joints is needed: with an end state shorter than the start
  state the fallback throws inside the \<open>try\<close> block and again inside the \<open>catch\<close> block.
\<close>

lemma planner_can_throw:
  "generateTimeOptimalTrajectory_exc ffr [j] [] = Inl TypeError"
  by (simp add: generateTimeOptimalTrajectory_exc_def try_body_exc_def Let_def
      generateLinearFallback_def delta_def distance_def)

end
